theory Spec2Isabelle
  imports Complex_Main "HOL-Library.Word" "HOL-Library.Sublist" "HOL-Library.Multiset"
begin

section \<open>Common data\<close>

text \<open>
  Audio data is a Python \<open>bytes\<close> object: a list of 8-bit words. Durations and
  timestamps are Python floats; they are modelled as reals (rounding is not modelled).
\<close>

type_synonym bytes = "8 word list"

datatype error =
  ZeroDivisionError | ValueError | RuntimeError | AttributeError | DetachedInstanceError
  | ProviderError

text \<open>Python's \<open>int(x)\<close> on a float truncates towards zero.\<close>

definition py_int :: "real \<Rightarrow> int" where
  "py_int x = (if 0 \<le> x then \<lfloor>x\<rfloor> else \<lceil>x\<rceil>)"

text \<open>Python's slices \<open>xs[:n]\<close> and \<open>xs[n:]\<close>; a negative bound counts from the end.\<close>

definition slice_to :: "int \<Rightarrow> 'a list \<Rightarrow> 'a list" where
  "slice_to n xs = (if 0 \<le> n then take (nat n) xs else take (length xs - nat (- n)) xs)"

definition slice_from :: "int \<Rightarrow> 'a list \<Rightarrow> 'a list" where
  "slice_from n xs = (if 0 \<le> n then drop (nat n) xs else drop (length xs - nat (- n)) xs)"

section \<open>audio/audio\_buffer.py: AudioBuffer\<close>

record AudioBuffer =
  sample_rate :: int
  channels :: int
  bytes_per_sample :: int
  bytes_per_second :: int
  max_bytes :: int
  buffer :: "bytes list"
  total_bytes :: int
  total_received_bytes :: int

definition AudioBuffer_init :: "real \<Rightarrow> int \<Rightarrow> int \<Rightarrow> AudioBuffer" where
  "AudioBuffer_init max_seconds sr ch =
     \<lparr> sample_rate = sr, channels = ch, bytes_per_sample = 2,
       bytes_per_second = sr * ch * 2,
       max_bytes = py_int (max_seconds * real_of_int (sr * ch * 2)),
       buffer = [], total_bytes = 0, total_received_bytes = 0 \<rparr>"

text \<open>
  The eviction loop of \<open>write\<close>:
  \<open>while self._total_bytes > self.max_bytes and self._buffer: popleft\<close>.
  It works on the deque and the byte counter.
\<close>

fun evict :: "int \<Rightarrow> bytes list \<Rightarrow> int \<Rightarrow> bytes list \<times> int" where
  "evict mx [] tot = ([], tot)"
| "evict mx (old_data # rest) tot =
     (if tot > mx then evict mx rest (tot - int (length old_data))
      else (old_data # rest, tot))"

definition AudioBuffer_write :: "AudioBuffer \<Rightarrow> bytes \<Rightarrow> AudioBuffer" where
  "AudioBuffer_write b data =
     (let (buf, tot) = evict (max_bytes b) (buffer b @ [data])
                         (total_bytes b + int (length data))
      in b\<lparr> buffer := buf, total_bytes := tot,
            total_received_bytes := total_received_bytes b + int (length data) \<rparr>)"

text \<open>
  The loop of \<open>read(num_bytes)\<close>: \<open>while remaining > 0 and self._buffer\<close>. The
  arguments are the deque, the byte counter, \<open>remaining\<close> and \<open>result\<close>; the loop
  returns the deque, the counter and \<open>result\<close>.
\<close>

fun read_loop :: "bytes list \<Rightarrow> int \<Rightarrow> int \<Rightarrow> bytes list \<Rightarrow> bytes list \<times> int \<times> bytes list" where
  "read_loop [] tot remaining result = ([], tot, result)"
| "read_loop (chunk # rest) tot remaining result =
     (if remaining > 0 then
        (if int (length chunk) \<le> remaining
         then read_loop rest (tot - int (length chunk)) (remaining - int (length chunk))
                (result @ [chunk])
         else (drop (nat remaining) chunk # rest, tot - remaining,
               result @ [take (nat remaining) chunk]))
      else (chunk # rest, tot, result))"

definition AudioBuffer_read :: "AudioBuffer \<Rightarrow> int option \<Rightarrow> bytes \<times> AudioBuffer" where
  "AudioBuffer_read b num_bytes =
     (if buffer b = [] then ([], b)
      else case num_bytes of
        None \<Rightarrow> (concat (buffer b), b\<lparr> buffer := [], total_bytes := 0 \<rparr>)
      | Some n \<Rightarrow>
          (let (buf, tot, result) = read_loop (buffer b) (total_bytes b) n []
           in (concat result, b\<lparr> buffer := buf, total_bytes := tot \<rparr>)))"

definition AudioBuffer_peek :: "AudioBuffer \<Rightarrow> int option \<Rightarrow> bytes" where
  "AudioBuffer_peek b num_bytes =
     (if buffer b = [] then []
      else case num_bytes of
        None \<Rightarrow> concat (buffer b)
      | Some n \<Rightarrow> slice_to n (concat (buffer b)))"

definition AudioBuffer_read_seconds :: "AudioBuffer \<Rightarrow> real \<Rightarrow> bytes \<times> AudioBuffer" where
  "AudioBuffer_read_seconds b seconds = AudioBuffer_read b (Some (py_int (seconds * real_of_int (bytes_per_second b))))"

definition available_bytes :: "AudioBuffer \<Rightarrow> int" where
  "available_bytes b = total_bytes b"

text \<open>The two float divisions raise \<open>ZeroDivisionError\<close> when \<open>bytes_per_second\<close> is 0.\<close>

definition available_seconds :: "AudioBuffer \<Rightarrow> error + real" where
  "available_seconds b =
     (if bytes_per_second b = 0 then Inl ZeroDivisionError
      else Inr (real_of_int (available_bytes b) / real_of_int (bytes_per_second b)))"

definition total_received_seconds :: "AudioBuffer \<Rightarrow> error + real" where
  "total_received_seconds b =
     (if bytes_per_second b = 0 then Inl ZeroDivisionError
      else Inr (real_of_int (total_received_bytes b) / real_of_int (bytes_per_second b)))"

definition AudioBuffer_clear :: "AudioBuffer \<Rightarrow> AudioBuffer" where
  "AudioBuffer_clear b = b\<lparr> buffer := [], total_bytes := 0 \<rparr>"

definition AudioBuffer_reset :: "AudioBuffer \<Rightarrow> AudioBuffer" where
  "AudioBuffer_reset b = b\<lparr> buffer := [], total_bytes := 0, total_received_bytes := 0 \<rparr>"

text \<open>
  A caller's view of the buffer: one call of a public method, and a sequence of calls
  run from left to right. The values that the reading calls return are dropped here;
  only the buffer they leave behind is kept.
\<close>

datatype buffer_op =
    Write bytes
  | Read "int option"
  | Peek "int option"
  | ReadSeconds real
  | Clear
  | Reset

fun exec_op :: "AudioBuffer \<Rightarrow> buffer_op \<Rightarrow> AudioBuffer" where
  "exec_op b (Write data) = AudioBuffer_write b data"
| "exec_op b (Read n) = snd (AudioBuffer_read b n)"
| "exec_op b (Peek n) = b"
| "exec_op b (ReadSeconds s) = snd (AudioBuffer_read_seconds b s)"
| "exec_op b Clear = AudioBuffer_clear b"
| "exec_op b Reset = AudioBuffer_reset b"

definition run_ops :: "AudioBuffer \<Rightarrow> buffer_op list \<Rightarrow> AudioBuffer" where
  "run_ops b ops = foldl exec_op b ops"

text \<open>The counter \<open>_total_bytes\<close> is the number of bytes held in the deque.\<close>

definition buffer_inv :: "AudioBuffer \<Rightarrow> bool" where
  "buffer_inv b \<longleftrightarrow> total_bytes b = int (length (concat (buffer b)))"

section \<open>asr/base.py and asr/transcript\_merger.py: TranscriptMerger\<close>

text \<open>
  A \<open>str\<close> is a list of characters. Only the characters of a text matter to the merge
  (its set of characters, with blanks and newlines removed).
\<close>

record TranscriptSegment =
  start_time :: real
  end_time :: real
  text_of :: string
  speaker_id :: "string option"
  confidence :: "real option"

record TranscriptResult =
  segments :: "TranscriptSegment list"
  full_text :: string
  duration :: real
  language :: "string option"

record TranscriptMerger =
  overlap_threshold :: real
  merger_segments :: "TranscriptSegment list"

definition TranscriptMerger_init :: "real \<Rightarrow> TranscriptMerger" where
  "TranscriptMerger_init thr = \<lparr> overlap_threshold = thr, merger_segments = [] \<rparr>"

text \<open>The default of the constructor's parameter: \<open>overlap_threshold: float = 0.5\<close>.\<close>

definition default_overlap_threshold :: real where
  "default_overlap_threshold = 0.5"

definition calculate_time_overlap :: "TranscriptSegment \<Rightarrow> TranscriptSegment \<Rightarrow> real" where
  "calculate_time_overlap seg1 seg2 =
     (let overlap_start = max (start_time seg1) (start_time seg2);
          overlap_end = min (end_time seg1) (end_time seg2)
      in max 0 (overlap_end - overlap_start))"

text \<open>\<open>text.replace(" ", "").replace("\n", "")\<close>\<close>

definition remove_blanks :: "string \<Rightarrow> string" where
  "remove_blanks t = filter (\<lambda>c. c \<noteq> CHR 0x0A) (filter (\<lambda>c. c \<noteq> CHR '' '') t)"

definition calculate_text_similarity :: "string \<Rightarrow> string \<Rightarrow> real" where
  "calculate_text_similarity text1 text2 =
     (if text1 = [] \<or> text2 = [] then 0
      else let t1 = remove_blanks text1; t2 = remove_blanks text2
        in if t1 = [] \<or> t2 = [] then 0
           else let set1 = set t1; set2 = set t2;
                    intersection = card (set1 \<inter> set2);
                    union = card (set1 \<union> set2)
             in if union = 0 then 0 else real intersection / real union)"

text \<open>
  The loop of \<open>_add_segment\<close> over the candidates \<open>self._segments[-(i + 1)]\<close>,
  \<open>i\<close> in \<open>range(min(5, len(self._segments)))\<close>: the last five accepted segments,
  newest first. It returns \<open>is_duplicate\<close>; the \<open>break\<close> is the \<open>True\<close> branch.
\<close>

fun is_duplicate_of :: "real \<Rightarrow> TranscriptSegment list \<Rightarrow> TranscriptSegment \<Rightarrow> bool" where
  "is_duplicate_of thr [] new_segment = False"
| "is_duplicate_of thr (existing # rest) new_segment =
     (if calculate_time_overlap existing new_segment > thr
      then (if calculate_text_similarity (text_of existing) (text_of new_segment) > 0.7
            then True
            else is_duplicate_of thr rest new_segment)
      else is_duplicate_of thr rest new_segment)"

definition add_segment :: "TranscriptMerger \<Rightarrow> TranscriptSegment \<Rightarrow> TranscriptMerger" where
  "add_segment m new_segment =
     (if merger_segments m = []
      then m\<lparr> merger_segments := merger_segments m @ [new_segment] \<rparr>
      else let is_duplicate =
                 is_duplicate_of (overlap_threshold m)
                   (take (min 5 (length (merger_segments m))) (rev (merger_segments m)))
                   new_segment
        in if \<not> is_duplicate
           then m\<lparr> merger_segments := merger_segments m @ [new_segment] \<rparr>
           else m)"

definition add_result :: "TranscriptMerger \<Rightarrow> TranscriptResult \<Rightarrow> TranscriptMerger" where
  "add_result m result = foldl add_segment m (segments result)"

text \<open>
  \<open>sorted(self._segments, key=lambda s: s.start_time)\<close> is a stable sort by key, as
  \<open>sort_key\<close> is.
\<close>

definition get_merged_result :: "TranscriptMerger \<Rightarrow> TranscriptResult" where
  "get_merged_result m =
     (let sorted_segments = sort_key start_time (merger_segments m);
          full_text_parts = map text_of sorted_segments
      in \<lparr> segments = sorted_segments,
           full_text = concat full_text_parts,
           duration = (if sorted_segments \<noteq> []
                       then end_time (last sorted_segments) - start_time (hd sorted_segments)
                       else 0),
           language = Some ''zh-CN'' \<rparr>)"

definition segment_count :: "TranscriptMerger \<Rightarrow> nat" where
  "segment_count m = length (merger_segments m)"

definition merge_transcripts :: "TranscriptResult list \<Rightarrow> real \<Rightarrow> TranscriptResult" where
  "merge_transcripts results thr =
     get_merged_result (foldl add_result (TranscriptMerger_init thr) results)"

text \<open>A span given by its times and text only, as in \<open>TranscriptSegment(s, e, t)\<close>.\<close>

definition span :: "real \<Rightarrow> real \<Rightarrow> string \<Rightarrow> TranscriptSegment" where
  "span s e t = \<lparr> start_time = s, end_time = e, text_of = t, speaker_id = None,
                  confidence = None \<rparr>"

section \<open>audio/chunk\_writer.py: ChunkInfo and ChunkWriter\<close>

text \<open>
  A path is kept symbolic: the directory of a meeting, \<open>chunks_dir / str(meeting_id)\<close>,
  and a chunk file in a directory, \<open>output_dir / f"chunk_{index:04d}.wav"\<close>.
\<close>

datatype path = MeetingDir int | ChunkFile path int

text \<open>The audio section of the configuration (config.py, \<open>AudioConfig\<close>) and its defaults.\<close>

record AudioConfig =
  cfg_sample_rate :: int
  cfg_channels :: int
  cfg_chunk_duration :: int
  cfg_overlap_duration :: real

definition default_audio_config :: AudioConfig where
  "default_audio_config =
     \<lparr> cfg_sample_rate = 16000, cfg_channels = 1, cfg_chunk_duration = 60,
       cfg_overlap_duration = 0.5 \<rparr>"

text \<open>\<open>x or d\<close> on an optional number: \<open>None\<close> and 0 are falsy.\<close>

definition py_or :: "'a::zero option \<Rightarrow> 'a \<Rightarrow> 'a" where
  "py_or x d = (case x of None \<Rightarrow> d | Some v \<Rightarrow> if v = 0 then d else v)"

record ChunkInfo =
  ci_index :: int
  ci_file_path :: path
  ci_start_time :: real
  ci_end_time :: real
  ci_start_datetime :: "real option"
  ci_duration :: real

definition ChunkInfo_init :: "int \<Rightarrow> path \<Rightarrow> real \<Rightarrow> real \<Rightarrow> real option \<Rightarrow> ChunkInfo" where
  "ChunkInfo_init i p s e dt =
     \<lparr> ci_index = i, ci_file_path = p, ci_start_time = s, ci_end_time = e,
       ci_start_datetime = dt, ci_duration = e - s \<rparr>"

text \<open>
  The writer's fields, and two traces of what it does to the outside: \<open>wav_files\<close>, the
  files written by \<open>_save_wav\<close> (path and audio data, in order; the file system is taken
  to accept every write), and \<open>emitted\<close>, the \<open>ChunkInfo\<close> objects it constructs, in
  order (each is logged and handed to \<open>on_chunk_ready\<close> when a callback is registered;
  an exception of the callback is caught and changes nothing).
\<close>

record ChunkWriter =
  cw_meeting_id :: int
  cw_sample_rate :: int
  cw_channels :: int
  chunk_duration :: real
  overlap_duration :: real
  output_dir :: path
  cw_buffer :: AudioBuffer
  chunk_index :: int
  start_datetime :: "real option"
  is_running :: bool
  overlap_data :: bytes
  cw_bytes_per_second :: int
  wav_files :: "(path \<times> bytes) list"
  emitted :: "ChunkInfo list"

definition ChunkWriter_init ::
  "AudioConfig \<Rightarrow> int \<Rightarrow> int option \<Rightarrow> int option \<Rightarrow> real option \<Rightarrow> real option \<Rightarrow> ChunkWriter" where
  "ChunkWriter_init config mid sr ch cd od =
     (let sample_rate' = py_or sr (cfg_sample_rate config);
          channels' = py_or ch (cfg_channels config);
          chunk_duration' = py_or cd (real_of_int (cfg_chunk_duration config));
          overlap_duration' = py_or od (cfg_overlap_duration config)
      in \<lparr> cw_meeting_id = mid, cw_sample_rate = sample_rate', cw_channels = channels',
           chunk_duration = chunk_duration', overlap_duration = overlap_duration',
           output_dir = MeetingDir mid,
           cw_buffer = AudioBuffer_init (chunk_duration' * 2) sample_rate' channels',
           chunk_index = 0, start_datetime = None, is_running = False, overlap_data = [],
           cw_bytes_per_second = sample_rate' * channels' * 2,
           wav_files = [], emitted = [] \<rparr>)"

text \<open>\<open>start()\<close>; the argument \<open>now\<close> is the value of \<open>datetime.now()\<close>.\<close>

definition ChunkWriter_start :: "ChunkWriter \<Rightarrow> real \<Rightarrow> ChunkWriter" where
  "ChunkWriter_start cw now =
     cw\<lparr> is_running := True, start_datetime := Some now, chunk_index := 0,
         overlap_data := [], cw_buffer := AudioBuffer_reset (cw_buffer cw) \<rparr>"

text \<open>
  The timing of a chunk with index \<open>i\<close>, shared by \<open>_save_chunk\<close> and \<open>stop\<close>:
  \<open>start_time = i * chunk_duration\<close>, minus \<open>overlap_duration\<close> when \<open>i > 0\<close>.
\<close>

definition chunk_start_time :: "ChunkWriter \<Rightarrow> real" where
  "chunk_start_time cw =
     (let start_time = real_of_int (chunk_index cw) * chunk_duration cw
      in if chunk_index cw > 0 then start_time - overlap_duration cw else start_time)"

definition save_chunk :: "ChunkWriter \<Rightarrow> error + ChunkWriter" where
  "save_chunk cw =
     (if \<not> is_running cw then Inr cw
      else
        let chunk_bytes = py_int (chunk_duration cw * real_of_int (cw_bytes_per_second cw));
            (data, buf) = AudioBuffer_read (cw_buffer cw) (Some chunk_bytes);
            cw1 = cw\<lparr> cw_buffer := buf \<rparr>
        in if data = [] then Inr cw1
           else
             let data' = (if overlap_data cw1 \<noteq> [] then overlap_data cw1 @ data else data);
                 overlap_bytes = py_int (overlap_duration cw1 * real_of_int (cw_bytes_per_second cw1));
                 cw2 = cw1\<lparr> overlap_data :=
                          (if int (length data') > overlap_bytes
                           then slice_from (- overlap_bytes) data' else data') \<rparr>;
                 start_time = chunk_start_time cw2
             in if cw_bytes_per_second cw2 = 0 then Inl ZeroDivisionError
                else
                  let end_time = start_time
                        + real (length data') / real_of_int (cw_bytes_per_second cw2);
                      file_path = ChunkFile (output_dir cw2) (chunk_index cw2);
                      chunk_info = ChunkInfo_init (chunk_index cw2) file_path
                                     (max 0 start_time) end_time (start_datetime cw2)
                  in Inr (cw2\<lparr> wav_files := wav_files cw2 @ [(file_path, data')],
                               chunk_index := chunk_index cw2 + 1,
                               emitted := emitted cw2 @ [chunk_info] \<rparr>))"

definition ChunkWriter_write :: "ChunkWriter \<Rightarrow> bytes \<Rightarrow> error + ChunkWriter" where
  "ChunkWriter_write cw data =
     (if \<not> is_running cw then Inr cw
      else
        let cw1 = cw\<lparr> cw_buffer := AudioBuffer_write (cw_buffer cw) data \<rparr>
        in case available_seconds (cw_buffer cw1) of
             Inl e \<Rightarrow> Inl e
           | Inr secs \<Rightarrow> if secs \<ge> chunk_duration cw1 then save_chunk cw1 else Inr cw1)"

definition ChunkWriter_stop :: "ChunkWriter \<Rightarrow> error + (ChunkInfo option \<times> ChunkWriter)" where
  "ChunkWriter_stop cw =
     (if \<not> is_running cw then Inr (None, cw)
      else
        let cw1 = cw\<lparr> is_running := False \<rparr>;
            (remaining_data, buf) = AudioBuffer_read (cw_buffer cw1) None;
            cw2 = cw1\<lparr> cw_buffer := buf \<rparr>
        in if remaining_data \<noteq> [] then
             let remaining_data' = (if overlap_data cw2 \<noteq> []
                                    then overlap_data cw2 @ remaining_data else remaining_data);
                 start_time = chunk_start_time cw2
             in if cw_bytes_per_second cw2 = 0 then Inl ZeroDivisionError
                else
                  let end_time = start_time
                        + real (length remaining_data') / real_of_int (cw_bytes_per_second cw2);
                      file_path = ChunkFile (output_dir cw2) (chunk_index cw2);
                      chunk_info = ChunkInfo_init (chunk_index cw2) file_path
                                     (max 0 start_time) end_time (start_datetime cw2)
                  in Inr (Some chunk_info,
                          cw2\<lparr> wav_files := wav_files cw2 @ [(file_path, remaining_data')],
                               emitted := emitted cw2 @ [chunk_info] \<rparr>)
           else Inr (None, cw2))"

definition get_chunk_count :: "ChunkWriter \<Rightarrow> int" where
  "get_chunk_count cw = chunk_index cw"

definition get_total_duration :: "ChunkWriter \<Rightarrow> error + real" where
  "get_total_duration cw = total_received_seconds (cw_buffer cw)"

definition get_output_dir :: "ChunkWriter \<Rightarrow> path" where
  "get_output_dir cw = output_dir cw"

text \<open>
  A stream of audio: the \<open>write\<close> calls between \<open>start()\<close> and \<open>stop()\<close>, in order.
  An exception ends the run.
\<close>

fun write_all :: "ChunkWriter \<Rightarrow> bytes list \<Rightarrow> error + ChunkWriter" where
  "write_all cw [] = Inr cw"
| "write_all cw (data # rest) =
     (case ChunkWriter_write cw data of Inl e \<Rightarrow> Inl e | Inr cw' \<Rightarrow> write_all cw' rest)"

definition record_stream ::
  "ChunkWriter \<Rightarrow> real \<Rightarrow> bytes list \<Rightarrow> error + (ChunkInfo option \<times> ChunkWriter)" where
  "record_stream cw now stream =
     (case write_all (ChunkWriter_start cw now) stream of
        Inl e \<Rightarrow> Inl e
      | Inr cw' \<Rightarrow> ChunkWriter_stop cw')"

text \<open>The duration of a stream, in seconds of audio at the writer's byte rate.\<close>

definition stream_seconds :: "ChunkWriter \<Rightarrow> bytes list \<Rightarrow> real" where
  "stream_seconds cw stream =
     real (length (concat stream)) / real_of_int (cw_bytes_per_second cw)"

text \<open>
  What claim C8 says of one emitted chunk and the audio data written for it, for a
  chunk duration \<open>D\<close>, an overlap \<open>O\<close> and a byte rate \<open>bps\<close>.
\<close>

definition chunk_timing_ok :: "real \<Rightarrow> real \<Rightarrow> int \<Rightarrow> ChunkInfo \<Rightarrow> bytes \<Rightarrow> bool" where
  "chunk_timing_ok D O' bps c data \<longleftrightarrow>
     ci_start_time c = max 0 (real_of_int (ci_index c) * D - O')
   \<and> ci_end_time c = ci_start_time c + real (length data) / real_of_int bps"

text \<open>
  The state of a running writer with 60-second chunks between two \<open>write\<close> calls of a
  stream in which no call carries more than 60 seconds of audio, after \<open>n\<close> bytes:
  less than one chunk is buffered, and the chunks emitted and the bytes buffered add
  up to \<open>n\<close>.
\<close>

definition stream_inv :: "ChunkWriter \<Rightarrow> int \<Rightarrow> bool" where
  "stream_inv cw n \<longleftrightarrow>
     is_running cw \<and> buffer_inv (cw_buffer cw)
   \<and> 0 < cw_bytes_per_second cw
   \<and> bytes_per_second (cw_buffer cw) = cw_bytes_per_second cw
   \<and> chunk_duration cw = 60
   \<and> max_bytes (cw_buffer cw) = 120 * cw_bytes_per_second cw
   \<and> total_bytes (cw_buffer cw) < 60 * cw_bytes_per_second cw
   \<and> n = chunk_index cw * (60 * cw_bytes_per_second cw) + total_bytes (cw_buffer cw)
   \<and> int (length (wav_files cw)) = chunk_index cw"

text \<open>
  The state of a writer with chunk duration \<open>D\<close>, overlap \<open>O\<close> and byte rate
  \<open>bps\<close> during a recording: its chunk index counts the chunks emitted so far, their
  indices are 0, 1, 2, ... in order, and each emitted chunk has the timing of claim C8
  for the audio data written to its file.
\<close>

definition timing_inv :: "real \<Rightarrow> real \<Rightarrow> int \<Rightarrow> ChunkWriter \<Rightarrow> bool" where
  "timing_inv D O' bps cw \<longleftrightarrow>
     chunk_duration cw = D \<and> overlap_duration cw = O' \<and> cw_bytes_per_second cw = bps
   \<and> bytes_per_second (cw_buffer cw) = bps
   \<and> chunk_index cw = int (length (emitted cw))
   \<and> map ci_index (emitted cw) = map int [0..<length (emitted cw)]
   \<and> list_all2 (chunk_timing_ok D O' bps) (emitted cw) (map snd (wav_files cw))"

section \<open>db/models.py and db/repositories.py: the persisted records\<close>

text \<open>
  The tables the recording engine and the pipeline write to. The timestamp columns
  (\<open>created_at\<close>, \<open>updated_at\<close>, \<open>started_at\<close>, \<open>ended_at\<close>) are left out, and
  the database is taken to accept every statement. The record \<open>world\<close> also counts the
  calls made to the two external providers.
\<close>

record Meeting =
  m_title :: string
  m_status :: string
  m_user_perspective :: string
  m_custom_perspective :: "string option"
  m_output_style :: string
  m_participants :: "string option"
  m_audio_path :: "path option"
  m_duration :: "real option"
  m_summary :: "string option"
  m_decisions_json :: "string option"
  m_action_items_json :: "string option"
  m_topics_json :: "string option"

record Note =
  n_time_offset :: real
  n_content :: string
  n_tag :: string

record AudioChunk =
  ac_meeting_id :: int
  ac_chunk_index :: int
  ac_file_path :: path
  ac_start_time :: real
  ac_end_time :: real
  ac_status :: string

record world =
  meetings :: "int \<rightharpoonup> Meeting"
  transcripts :: "(int \<times> TranscriptSegment) list"
  meeting_notes :: "(int \<times> Note) list"
  audio_chunks :: "AudioChunk list"
  asr_calls :: nat
  llm_calls :: nat

text \<open>
  \<open>MeetingRepository.update(meeting_id, **kwargs)\<close>: the fields are set on the row if
  it exists; nothing happens otherwise. The keyword arguments are the function \<open>f\<close>.
\<close>

definition MeetingRepository_update :: "world \<Rightarrow> int \<Rightarrow> (Meeting \<Rightarrow> Meeting) \<Rightarrow> world" where
  "MeetingRepository_update w mid f =
     (case meetings w mid of
        None \<Rightarrow> w
      | Some meeting \<Rightarrow> w\<lparr> meetings := (meetings w)(mid \<mapsto> f meeting) \<rparr>)"

text \<open>
  Every repository method runs inside \<open>with session_scope() as session\<close>
  (db/database.py), which commits and then closes the session when the block is left,
  also when it is left by \<open>return\<close>. The commit expires every instance of the
  session and the close detaches it, so an instance that a repository method returns is
  expired and detached: reading one of its columns outside the method raises
  \<open>DetachedInstanceError\<close>. Whether an instance was returned at all (\<open>None\<close> or
  not, the length of a list) can still be tested.
\<close>

datatype 'a detached = Detached 'a

definition read_column :: "'a detached \<Rightarrow> ('a \<Rightarrow> 'b) \<Rightarrow> error + 'b" where
  "read_column instance column = Inl DetachedInstanceError"

definition MeetingRepository_get_by_id :: "world \<Rightarrow> int \<Rightarrow> Meeting detached option" where
  "MeetingRepository_get_by_id w mid = map_option Detached (meetings w mid)"

definition update_status :: "world \<Rightarrow> int \<Rightarrow> string \<Rightarrow> world" where
  "update_status w mid status = MeetingRepository_update w mid (\<lambda>m. m\<lparr> m_status := status \<rparr>)"

definition start_recording :: "world \<Rightarrow> int \<Rightarrow> path \<Rightarrow> world" where
  "start_recording w mid audio_path =
     MeetingRepository_update w mid
       (\<lambda>m. m\<lparr> m_status := ''recording'', m_audio_path := Some audio_path \<rparr>)"

definition stop_recording :: "world \<Rightarrow> int \<Rightarrow> real \<Rightarrow> world" where
  "stop_recording w mid d =
     MeetingRepository_update w mid
       (\<lambda>m. m\<lparr> m_status := ''processing'', m_duration := Some d \<rparr>)"

definition save_minutes :: "world \<Rightarrow> int \<Rightarrow> string \<Rightarrow> string \<Rightarrow> string \<Rightarrow> string \<Rightarrow> world" where
  "save_minutes w mid summary decisions action_items topics =
     MeetingRepository_update w mid
       (\<lambda>m. m\<lparr> m_status := ''done'', m_summary := Some summary,
               m_decisions_json := Some decisions,
               m_action_items_json := Some action_items,
               m_topics_json := Some topics \<rparr>)"

definition AudioChunkRepository_create :: "world \<Rightarrow> int \<Rightarrow> ChunkInfo \<Rightarrow> world" where
  "AudioChunkRepository_create w mid c =
     w\<lparr> audio_chunks := audio_chunks w @
          [\<lparr> ac_meeting_id = mid, ac_chunk_index = ci_index c, ac_file_path = ci_file_path c,
             ac_start_time = ci_start_time c, ac_end_time = ci_end_time c,
             ac_status = ''pending'' \<rparr>] \<rparr>"

definition AudioChunkRepository_get_by_meeting :: "world \<Rightarrow> int \<Rightarrow> AudioChunk list" where
  "AudioChunkRepository_get_by_meeting w mid =
     sort_key ac_chunk_index (filter (\<lambda>c. ac_meeting_id c = mid) (audio_chunks w))"

definition NoteRepository_get_by_meeting :: "world \<Rightarrow> int \<Rightarrow> Note list" where
  "NoteRepository_get_by_meeting w mid =
     sort_key n_time_offset (map snd (filter (\<lambda>(i, n). i = mid) (meeting_notes w)))"

definition TranscriptRepository_delete_by_meeting :: "world \<Rightarrow> int \<Rightarrow> world" where
  "TranscriptRepository_delete_by_meeting w mid =
     w\<lparr> transcripts := filter (\<lambda>(i, s). i \<noteq> mid) (transcripts w) \<rparr>"

definition TranscriptRepository_create_batch :: "world \<Rightarrow> (int \<times> TranscriptSegment) list \<Rightarrow> world" where
  "TranscriptRepository_create_batch w rows = w\<lparr> transcripts := transcripts w @ rows \<rparr>"

section \<open>core/recording\_engine.py: RecordingEngine\<close>

datatype RecordingState = IDLE | STARTING | RECORDING | STOPPING | STOPPED

text \<open>
  The capture source is external: only whether it runs is kept. Whether its \<open>start()\<close>
  finds a device is an input of the engine's \<open>start\<close>.
\<close>

record Capture =
  cap_is_running :: bool

text \<open>
  The engine's fields, and the traces of its callbacks: the states announced through
  \<open>on_state_changed\<close>, the errors reported through \<open>on_error\<close>, and the chunks passed
  on to \<open>on_chunk_ready\<close>.
\<close>

record RecordingEngine =
  re_config :: AudioConfig
  re_state :: RecordingState
  re_capture :: "Capture option"
  re_chunk_writer :: "ChunkWriter option"
  re_meeting_id :: "int option"
  re_start_time :: "real option"
  re_state_log :: "RecordingState list"
  re_error_log :: "error list"
  re_chunk_log :: "ChunkInfo list"

definition RecordingEngine_init :: "AudioConfig \<Rightarrow> RecordingEngine" where
  "RecordingEngine_init config =
     \<lparr> re_config = config, re_state = IDLE, re_capture = None, re_chunk_writer = None,
       re_meeting_id = None, re_start_time = None,
       re_state_log = [], re_error_log = [], re_chunk_log = [] \<rparr>"

definition set_state :: "RecordingEngine \<Rightarrow> RecordingState \<Rightarrow> RecordingEngine" where
  "set_state eng new_state =
     eng\<lparr> re_state := new_state, re_state_log := re_state_log eng @ [new_state] \<rparr>"

text \<open>\<open>if self._meeting_id:\<close> holds for an identifier that is set and not 0.\<close>

definition truthy_id :: "int option \<Rightarrow> bool" where
  "truthy_id i = (case i of None \<Rightarrow> False | Some k \<Rightarrow> k \<noteq> 0)"

definition handle_chunk_ready :: "RecordingEngine \<times> world \<Rightarrow> ChunkInfo \<Rightarrow> RecordingEngine \<times> world" where
  "handle_chunk_ready ew chunk_info =
     (let (eng, w) = ew;
          w' = (if truthy_id (re_meeting_id eng)
                then AudioChunkRepository_create w (the (re_meeting_id eng)) chunk_info
                else w)
      in (eng\<lparr> re_chunk_log := re_chunk_log eng @ [chunk_info] \<rparr>, w'))"

text \<open>
  The writer calls \<open>on_chunk_ready\<close>, which is the engine's \<open>_handle_chunk_ready\<close>,
  for each chunk it emits: the chunks that \<open>cw'\<close> has emitted beyond those of \<open>cw\<close>.
\<close>

definition deliver_chunks ::
  "RecordingEngine \<times> world \<Rightarrow> ChunkWriter \<Rightarrow> ChunkWriter \<Rightarrow> RecordingEngine \<times> world" where
  "deliver_chunks ew cw cw' =
     foldl handle_chunk_ready ew (drop (length (emitted cw)) (emitted cw'))"

definition handle_audio_data ::
  "RecordingEngine \<Rightarrow> world \<Rightarrow> bytes \<Rightarrow> error + (RecordingEngine \<times> world)" where
  "handle_audio_data eng w data =
     (case re_chunk_writer eng of
        None \<Rightarrow> Inr (eng, w)
      | Some cw \<Rightarrow>
          if re_state eng = RECORDING then
            (case ChunkWriter_write cw data of
               Inl e \<Rightarrow> Inl e
             | Inr cw' \<Rightarrow> Inr (deliver_chunks (eng\<lparr> re_chunk_writer := Some cw' \<rparr>, w) cw cw'))
          else Inr (eng, w))"

definition cleanup :: "RecordingEngine \<Rightarrow> RecordingEngine" where
  "cleanup eng = eng\<lparr> re_capture := None, re_chunk_writer := None \<rparr>"

text \<open>
  \<open>start(meeting_id)\<close>. The arguments \<open>t_writer\<close> and \<open>t_start\<close> are the values of
  \<open>datetime.now()\<close> in the writer's \<open>start()\<close> and in the engine; \<open>device_ok\<close> is what
  the capture source's \<open>start()\<close> returns.
\<close>

definition RecordingEngine_start ::
  "RecordingEngine \<Rightarrow> world \<Rightarrow> bool \<Rightarrow> int \<Rightarrow> real \<Rightarrow> real \<Rightarrow> bool \<times> RecordingEngine \<times> world" where
  "RecordingEngine_start eng w device_ok mid t_writer t_start =
     (if re_state eng \<noteq> IDLE then (False, eng, w)
      else
        let eng1 = (set_state eng STARTING)\<lparr> re_meeting_id := Some mid \<rparr>;
            cw = ChunkWriter_start (ChunkWriter_init (re_config eng1) mid None None None None)
                   t_writer;
            eng2 = eng1\<lparr> re_chunk_writer := Some cw,
                        re_capture := Some \<lparr> cap_is_running = False \<rparr> \<rparr>
        in if \<not> device_ok then
             let eng3 = set_state (cleanup eng2) IDLE
             in (False, eng3\<lparr> re_error_log := re_error_log eng3 @ [RuntimeError] \<rparr>, w)
           else
             let eng3 = eng2\<lparr> re_capture := Some \<lparr> cap_is_running = True \<rparr>,
                              re_start_time := Some t_start \<rparr>;
                 w' = start_recording w mid (get_output_dir cw)
             in (True, set_state eng3 RECORDING, w'))"

text \<open>
  The \<open>try\<close> block of \<open>stop()\<close>: it returns the duration computed so far, the engine
  and the world, and the exception if one was raised.
\<close>

definition stop_body ::
  "RecordingEngine \<Rightarrow> world \<Rightarrow> real \<times> RecordingEngine \<times> world \<times> error option" where
  "stop_body eng w =
     (let eng1 = (case re_capture eng of
                    None \<Rightarrow> eng
                  | Some c \<Rightarrow> eng\<lparr> re_capture := Some (c\<lparr> cap_is_running := False \<rparr>) \<rparr>)
      in case re_chunk_writer eng1 of
           None \<Rightarrow>
             (0, eng1,
              (if truthy_id (re_meeting_id eng1)
               then stop_recording w (the (re_meeting_id eng1)) 0 else w),
              None)
         | Some cw \<Rightarrow>
             (case ChunkWriter_stop cw of
                Inl e \<Rightarrow> (0, eng1, w, Some e)
              | Inr (r, cw') \<Rightarrow>
                  let (eng2, w2) = deliver_chunks (eng1\<lparr> re_chunk_writer := Some cw' \<rparr>, w) cw cw'
                  in case get_total_duration cw' of
                       Inl e \<Rightarrow> (0, eng2, w2, Some e)
                     | Inr d \<Rightarrow>
                         (d, eng2,
                          (if truthy_id (re_meeting_id eng2)
                           then stop_recording w2 (the (re_meeting_id eng2)) d else w2),
                          None)))"

definition RecordingEngine_stop :: "RecordingEngine \<Rightarrow> world \<Rightarrow> real \<times> RecordingEngine \<times> world" where
  "RecordingEngine_stop eng w =
     (if re_state eng \<noteq> RECORDING then (0, eng, w)
      else
        let (d, eng1, w1, exn) = stop_body (set_state eng STOPPING) w;
            eng2 = (case exn of
                      None \<Rightarrow> eng1
                    | Some e \<Rightarrow> eng1\<lparr> re_error_log := re_error_log eng1 @ [e] \<rparr>)
        in (d, set_state (cleanup eng2) STOPPED, w1))"

definition RecordingEngine_reset :: "RecordingEngine \<Rightarrow> RecordingEngine" where
  "RecordingEngine_reset eng =
     (if re_state eng = RECORDING then eng
      else set_state ((cleanup eng)\<lparr> re_meeting_id := None, re_start_time := None \<rparr>) IDLE)"

text \<open>\<open>get_elapsed_seconds()\<close>; the argument \<open>now\<close> is the value of \<open>datetime.now()\<close>.\<close>

definition get_elapsed_seconds :: "RecordingEngine \<Rightarrow> real \<Rightarrow> error + real" where
  "get_elapsed_seconds eng now =
     (if re_start_time eng \<noteq> None \<and> re_state eng = RECORDING
      then Inr (now - the (re_start_time eng))
      else case re_chunk_writer eng of
             Some cw \<Rightarrow> get_total_duration cw
           | None \<Rightarrow> Inr 0)"

section \<open>core/pipeline.py: MeetingPipeline\<close>

datatype PipelineState =
  P_IDLE | P_TRANSCRIBING | P_MERGING | P_GENERATING | P_DONE | P_FAILED

text \<open>
  The pipeline's fields, and the traces of its callbacks: the states announced through
  \<open>on_state_changed\<close>, the fractions reported through \<open>on_progress\<close> and the errors
  reported through \<open>on_error\<close> (the message texts are left out).
\<close>

record MeetingPipeline =
  p_state :: PipelineState
  current_meeting_id :: "int option"
  p_state_log :: "PipelineState list"
  p_progress_log :: "real list"
  p_error_log :: "error list"

definition MeetingPipeline_init :: MeetingPipeline where
  "MeetingPipeline_init =
     \<lparr> p_state = P_IDLE, current_meeting_id = None, p_state_log = [], p_progress_log = [],
       p_error_log = [] \<rparr>"

text \<open>
  The result of \<open>MinutesGenerator.generate\<close>, with the three lists already serialised
  by \<open>json.dumps\<close>.
\<close>

record MinutesResult =
  summary :: string
  decisions_json :: string
  action_items_json :: string
  topics_json :: string

text \<open>
  The two external providers. \<open>transcribe_url\<close> is the recognition provider's answer
  for an audio URL, and \<open>generate\<close> is the answer of \<open>MinutesGenerator.generate\<close>
  (prompt construction, the call of the generation provider and the parsing of its
  response) for a meeting, a transcript and the notes. Either may raise.
\<close>

record providers =
  transcribe_url :: "string \<Rightarrow> error + TranscriptResult"
  generate :: "Meeting \<Rightarrow> TranscriptResult \<Rightarrow> Note list \<Rightarrow> error + MinutesResult"

text \<open>
  The summary that is stored when there is nothing to summarise: the source's literal
  (seven CJK characters, ``no transcript content'' in parentheses) as its UTF-8 bytes.
\<close>

definition NO_TRANSCRIPT_SUMMARY :: string where
  "NO_TRANSCRIPT_SUMMARY =
     [CHR 0xEF, CHR 0xBC, CHR 0x88, CHR 0xE6, CHR 0x97, CHR 0xA0, CHR 0xE8, CHR 0xBD, CHR 0xAC,
      CHR 0xE5, CHR 0x86, CHR 0x99, CHR 0xE5, CHR 0x86, CHR 0x85, CHR 0xE5, CHR 0xAE, CHR 0xB9,
      CHR 0xEF, CHR 0xBC, CHR 0x89]"

definition p_set_state :: "MeetingPipeline \<Rightarrow> PipelineState \<Rightarrow> MeetingPipeline" where
  "p_set_state p st = p\<lparr> p_state := st, p_state_log := p_state_log p @ [st] \<rparr>"

definition report_progress :: "MeetingPipeline \<Rightarrow> real \<Rightarrow> MeetingPipeline" where
  "report_progress p x = p\<lparr> p_progress_log := p_progress_log p @ [x] \<rparr>"

definition report_error :: "MeetingPipeline \<Rightarrow> error \<Rightarrow> MeetingPipeline" where
  "report_error p e = p\<lparr> p_error_log := p_error_log p @ [e] \<rparr>"

text \<open>
  A stage of the pipeline either returns, or raises with the pipeline and the world as
  they are at that moment.
\<close>

type_synonym 'a stage = "(error \<times> MeetingPipeline \<times> world) + 'a"

text \<open>
  The loop of \<open>_transcribe\<close> over \<open>enumerate(audio_urls)\<close>; \<open>i\<close> is the index of the
  first URL of the list and \<open>tot\<close> is \<open>total = len(audio_urls)\<close>.
\<close>

fun transcribe_loop ::
  "providers \<Rightarrow> nat \<Rightarrow> nat \<Rightarrow> string list \<Rightarrow> MeetingPipeline \<Rightarrow> world \<Rightarrow> TranscriptMerger
     \<Rightarrow> (MeetingPipeline \<times> world \<times> TranscriptMerger) stage" where
  "transcribe_loop env tot i [] p w merger = Inr (p, w, merger)"
| "transcribe_loop env tot i (url # rest) p w merger =
     (let p1 = report_progress p (real (i + 1) / real tot * 0.6);
          w1 = w\<lparr> asr_calls := asr_calls w + 1 \<rparr>
      in case transcribe_url env url of
           Inl e \<Rightarrow> Inl (e, p1, w1)
         | Inr result \<Rightarrow> transcribe_loop env tot (i + 1) rest p1 w1 (add_result merger result))"

definition transcribe ::
  "providers \<Rightarrow> MeetingPipeline \<Rightarrow> world \<Rightarrow> int \<Rightarrow> string list option
     \<Rightarrow> (MeetingPipeline \<times> world \<times> TranscriptResult) stage" where
  "transcribe env p w mid audio_urls =
     (let merger = TranscriptMerger_init default_overlap_threshold
      in if audio_urls \<noteq> None \<and> audio_urls \<noteq> Some [] then
           (case transcribe_loop env (length (the audio_urls)) 0 (the audio_urls) p w merger of
              Inl x \<Rightarrow> Inl x
            | Inr (p', w', merger') \<Rightarrow> Inr (p', w', get_merged_result merger'))
         else
           if AudioChunkRepository_get_by_meeting w mid = []
           then Inr (p, w, \<lparr> segments = [], full_text = [], duration = 0, language = None \<rparr>)
           else Inr (p, w, get_merged_result merger))"

definition save_transcripts :: "world \<Rightarrow> int \<Rightarrow> TranscriptResult \<Rightarrow> world" where
  "save_transcripts w mid transcript =
     (let w1 = TranscriptRepository_delete_by_meeting w mid;
          transcripts_data = map (\<lambda>seg. (mid, seg)) (segments transcript)
      in if transcripts_data \<noteq> [] then TranscriptRepository_create_batch w1 transcripts_data
         else w1)"

text \<open>
  \<open>_generate_minutes\<close>. With an empty transcript the placeholder is stored and the
  method returns. Otherwise \<open>MinutesGenerator.generate\<close> is called with the instance
  that \<open>get_by_id\<close> returned; its first statement reads \<open>meeting.id\<close> and
  \<open>meeting.title\<close>, which raises for \<open>None\<close> and for a detached instance. The
  generation provider is called inside \<open>generate\<close>, after that statement; the
  counter \<open>llm_calls\<close> records each call.
\<close>

definition generate_minutes ::
  "providers \<Rightarrow> MeetingPipeline \<Rightarrow> world \<Rightarrow> int \<Rightarrow> TranscriptResult
     \<Rightarrow> (MeetingPipeline \<times> world) stage" where
  "generate_minutes env p w mid transcript =
     (let p1 = report_progress p 0.7;
          meeting = MeetingRepository_get_by_id w mid;
          notes' = NoteRepository_get_by_meeting w mid
      in if segments transcript = [] then
           Inr (p1, save_minutes w mid NO_TRANSCRIPT_SUMMARY ''[]'' ''[]'' ''[]'')
         else
           case meeting of
             None \<Rightarrow> Inl (AttributeError, p1, w)
           | Some (Detached m) \<Rightarrow>
               (case read_column (Detached m) m_title of
                  Inl e \<Rightarrow> Inl (e, p1, w)
                | Inr title \<Rightarrow>
                    let w1 = w\<lparr> llm_calls := llm_calls w + 1 \<rparr>
                    in case generate env m transcript notes' of
                         Inl e \<Rightarrow> Inl (e, p1, w1)
                       | Inr result \<Rightarrow>
                           let p2 = report_progress p1 0.9;
                               w2 = save_minutes w1 mid (summary result) (decisions_json result)
                                      (action_items_json result) (topics_json result)
                           in Inr (report_progress p2 1.0, w2)))"

text \<open>
  The \<open>try\<close> block of \<open>process\<close>. After the test \<open>if not meeting\<close>, the log
  statement reads \<open>meeting.title\<close> on the instance that \<open>get_by_id\<close> returned.
\<close>

definition process_body ::
  "providers \<Rightarrow> MeetingPipeline \<Rightarrow> world \<Rightarrow> int \<Rightarrow> string list option
     \<Rightarrow> (MeetingPipeline \<times> world) stage" where
  "process_body env p w mid audio_urls =
     (case MeetingRepository_get_by_id w mid of
        None \<Rightarrow> Inl (ValueError, p, w)
      | Some meeting \<Rightarrow>
          (case read_column meeting m_title of
             Inl e \<Rightarrow> Inl (e, p, w)
           | Inr title \<Rightarrow>
               let w1 = update_status w mid ''processing'';
                   p1 = p_set_state p P_TRANSCRIBING
               in case transcribe env p1 w1 mid audio_urls of
                    Inl x \<Rightarrow> Inl x
                  | Inr (p2, w2, transcript_result) \<Rightarrow>
                      let p3 = p_set_state p2 P_MERGING;
                          w3 = save_transcripts w2 mid transcript_result;
                          p4 = p_set_state p3 P_GENERATING
                      in case generate_minutes env p4 w3 mid transcript_result of
                           Inl x \<Rightarrow> Inl x
                         | Inr (p5, w5) \<Rightarrow>
                             Inr (p_set_state p5 P_DONE, update_status w5 mid ''done'')))"

definition process ::
  "providers \<Rightarrow> MeetingPipeline \<Rightarrow> world \<Rightarrow> int \<Rightarrow> string list option
     \<Rightarrow> bool \<times> MeetingPipeline \<times> world" where
  "process env p w mid audio_urls =
     (if p_state p \<notin> {P_IDLE, P_DONE, P_FAILED} then (False, p, w)
      else
        let p1 = p\<lparr> current_meeting_id := Some mid \<rparr>
        in case process_body env p1 w mid audio_urls of
             Inr (p', w') \<Rightarrow> (True, p'\<lparr> current_meeting_id := None \<rparr>, w')
           | Inl (e, p', w') \<Rightarrow>
               let p2 = report_error (p_set_state p' P_FAILED) e;
                   w2 = update_status w' mid ''failed''
               in (False, p2\<lparr> current_meeting_id := None \<rparr>, w2))"

section \<open>Example data\<close>

text \<open>A world with one meeting, number 1, in draft, and a provider that always fails.\<close>

definition example_meeting :: Meeting where
  "example_meeting =
     \<lparr> m_title = ''Weekly sync'', m_status = ''draft'', m_user_perspective = ''worker'',
       m_custom_perspective = None, m_output_style = ''neutral'', m_participants = None,
       m_audio_path = None, m_duration = None, m_summary = None, m_decisions_json = None,
       m_action_items_json = None, m_topics_json = None \<rparr>"

definition example_world :: world where
  "example_world =
     \<lparr> meetings = [1 \<mapsto> example_meeting], transcripts = [], meeting_notes = [],
       audio_chunks = [], asr_calls = 0, llm_calls = 0 \<rparr>"

definition failing_providers :: providers where
  "failing_providers =
     \<lparr> transcribe_url = (\<lambda>url. Inl ProviderError),
       generate = (\<lambda>m t ns. Inl ProviderError) \<rparr>"

text \<open>
  A recording of meeting 1 with the default configuration, started at time 0 with a
  working capture device, that has received one block of 32000 bytes: one second of
  audio.
\<close>

definition recorded_second :: "error + (RecordingEngine \<times> world)" where
  "recorded_second =
     (let (ok, eng, w) = RecordingEngine_start (RecordingEngine_init default_audio_config)
                           example_world True 1 0 0
      in handle_audio_data eng w (replicate 32000 0))"

section \<open>Properties of the ring buffer\<close>

lemma evict_drop:
  "\<exists>k. fst (evict mx bs tot) = drop k bs"
proof (induction bs arbitrary: tot)
  case Nil
  show ?case by simp
next
  case (Cons b bs)
  show ?case
  proof (cases "tot > mx")
    case True
    from Cons.IH [of "tot - int (length b)"] obtain k
      where "fst (evict mx bs (tot - int (length b))) = drop k bs" by blast
    then have "fst (evict mx (b # bs) tot) = drop (Suc k) (b # bs)"
      using True by simp
    then show ?thesis by blast
  next
    case False
    then have "fst (evict mx (b # bs) tot) = drop 0 (b # bs)" by simp
    then show ?thesis by blast
  qed
qed

lemma evict_count:
  "tot = int (length (concat bs)) \<Longrightarrow>
   snd (evict mx bs tot) = int (length (concat (fst (evict mx bs tot))))"
  by (induction bs arbitrary: tot) auto

lemma evict_bound:
  "tot = int (length (concat bs)) \<Longrightarrow> 0 \<le> mx \<Longrightarrow> snd (evict mx bs tot) \<le> mx"
  by (induction bs arbitrary: tot) auto

lemma evict_stop:
  "snd (evict mx bs tot) \<le> mx \<or> fst (evict mx bs tot) = []"
  by (induction bs arbitrary: tot) auto

lemma read_loop_concat:
  "0 \<le> remaining \<Longrightarrow>
   read_loop bs tot remaining result = (buf, tot', result') \<Longrightarrow>
     concat result' = concat result @ take (nat remaining) (concat bs)
   \<and> concat buf = drop (nat remaining) (concat bs)
   \<and> tot' = tot - min remaining (int (length (concat bs)))"
proof (induction bs arbitrary: tot remaining result)
  case Nil
  then show ?case by simp
next
  case (Cons chunk rest)
  show ?case
  proof (cases "remaining > 0")
    case False
    with Cons.prems show ?thesis by simp
  next
    case pos: True
    show ?thesis
    proof (cases "int (length chunk) \<le> remaining")
      case True
      with pos Cons.prems have
        rl: "read_loop rest (tot - int (length chunk)) (remaining - int (length chunk))
               (result @ [chunk]) = (buf, tot', result')" by simp
      have nn: "0 \<le> remaining - int (length chunk)" using True by simp
      have nat_eq: "nat (remaining - int (length chunk)) = nat remaining - length chunk"
        using True by linarith
      from Cons.IH [OF nn rl] True show ?thesis
        by (simp add: nat_eq) 
    next
      case False
      with pos Cons.prems show ?thesis by auto
    qed
  qed
qed

lemma read_loop_nonpos:
  "remaining \<le> 0 \<Longrightarrow> read_loop bs tot remaining result = (bs, tot, result)"
  by (cases bs) auto

lemma buffer_inv_init: "buffer_inv (AudioBuffer_init ms sr ch)"
  by (simp add: buffer_inv_def AudioBuffer_init_def)

lemma buffer_inv_write: "buffer_inv b \<Longrightarrow> buffer_inv (AudioBuffer_write b data)"
  using evict_count [of "total_bytes b + int (length data)" "buffer b @ [data]" "max_bytes b"]
  by (auto simp add: buffer_inv_def AudioBuffer_write_def split: prod.splits)

lemma buffer_inv_read:
  assumes inv: "buffer_inv b"
  shows "buffer_inv (snd (AudioBuffer_read b n))"
proof (cases n)
  case None
  with inv show ?thesis by (simp add: buffer_inv_def AudioBuffer_read_def)
next
  case (Some m)
  show ?thesis
  proof (cases "0 \<le> m")
    case True
    obtain buf tot result where
      rl: "read_loop (buffer b) (total_bytes b) m [] = (buf, tot, result)"
      by (cases "read_loop (buffer b) (total_bytes b) m []") auto
    from read_loop_concat [OF True rl] inv True have "tot = int (length (concat buf))"
      by (auto simp: buffer_inv_def min_def)
    with rl Some inv show ?thesis
      by (simp add: buffer_inv_def AudioBuffer_read_def)
  next
    case False
    then have "read_loop (buffer b) (total_bytes b) m [] = (buffer b, total_bytes b, [])"
      by (simp add: read_loop_nonpos)
    with Some inv show ?thesis
      by (simp add: buffer_inv_def AudioBuffer_read_def)
  qed
qed

lemma buffer_inv_exec_op: "buffer_inv b \<Longrightarrow> buffer_inv (exec_op b x)"
  by (cases x)
     (simp_all add: buffer_inv_write buffer_inv_read AudioBuffer_read_seconds_def,
      simp_all add: buffer_inv_def AudioBuffer_clear_def AudioBuffer_reset_def)

lemma run_ops_snoc: "run_ops b (ops @ [x]) = exec_op (run_ops b ops) x"
  by (simp add: run_ops_def)

lemma buffer_inv_run_ops: "buffer_inv b \<Longrightarrow> buffer_inv (run_ops b ops)"
  by (induction ops rule: rev_induct) (simp_all add: run_ops_def buffer_inv_exec_op)

lemma max_bytes_read [simp]: "max_bytes (snd (AudioBuffer_read b n)) = max_bytes b"
  by (simp add: AudioBuffer_read_def split: option.splits prod.splits)

lemma max_bytes_exec_op [simp]: "max_bytes (exec_op b x) = max_bytes b"
  by (cases x)
     (simp_all add: AudioBuffer_write_def AudioBuffer_read_seconds_def
        AudioBuffer_clear_def AudioBuffer_reset_def split: prod.splits)

lemma max_bytes_run_ops [simp]: "max_bytes (run_ops b ops) = max_bytes b"
  by (induction ops rule: rev_induct) (simp_all add: run_ops_snoc, simp add: run_ops_def)

lemma bps_read [simp]: "bytes_per_second (snd (AudioBuffer_read b n)) = bytes_per_second b"
  by (simp add: AudioBuffer_read_def split: option.splits prod.splits)

lemma bps_exec_op [simp]: "bytes_per_second (exec_op b x) = bytes_per_second b"
  by (cases x)
     (simp_all add: AudioBuffer_write_def AudioBuffer_read_seconds_def
        AudioBuffer_clear_def AudioBuffer_reset_def split: prod.splits)

lemma bps_run_ops [simp]: "bytes_per_second (run_ops b ops) = bytes_per_second b"
  by (induction ops rule: rev_induct) (simp_all add: run_ops_snoc, simp add: run_ops_def)

lemma received_read [simp]:
  "total_received_bytes (snd (AudioBuffer_read b n)) = total_received_bytes b"
  by (simp add: AudioBuffer_read_def split: option.splits prod.splits)

lemma received_exec_op:
  "x \<noteq> Reset \<Longrightarrow> total_received_bytes b \<le> total_received_bytes (exec_op b x)"
  by (cases x)
     (simp_all add: AudioBuffer_write_def AudioBuffer_read_seconds_def
        AudioBuffer_clear_def split: prod.splits)

lemma received_run_ops:
  "Reset \<notin> set ops \<Longrightarrow> total_received_bytes b \<le> total_received_bytes (run_ops b ops)"
proof (induction ops rule: rev_induct)
  case Nil
  show ?case by (simp add: run_ops_def)
next
  case (snoc x ops)
  then have "total_received_bytes b \<le> total_received_bytes (run_ops b ops)" by simp
  also have "\<dots> \<le> total_received_bytes (exec_op (run_ops b ops) x)"
    using snoc.prems by (intro received_exec_op) auto
  finally show ?case by (simp add: run_ops_snoc)
qed

text \<open>
  Claim C5. For every sequence of buffer operations that contains no \<open>reset()\<close>
  (writes, reads, peeks, timed reads and clears, in any order), the value of
  \<open>total_received_seconds()\<close> after the sequence is at least its value before;
  \<open>clear()\<close> empties the buffered data and leaves \<open>total_received_seconds()\<close>
  exactly as it was; \<open>reset()\<close> sets it to zero. The buffer is one with a positive
  number of bytes per second (otherwise the query raises \<open>ZeroDivisionError\<close>).
\<close>

theorem total_received_monotone:
  assumes "0 < bytes_per_second b"
  shows "(Reset \<notin> set ops \<longrightarrow>
            (\<exists>x y. total_received_seconds b = Inr x
                 \<and> total_received_seconds (run_ops b ops) = Inr y \<and> x \<le> y))
       \<and> total_received_seconds (AudioBuffer_clear b) = total_received_seconds b
       \<and> buffer (AudioBuffer_clear b) = []
       \<and> total_received_seconds (AudioBuffer_reset b) = Inr 0"
proof -
  have mono: "total_received_seconds b = Inr (real_of_int (total_received_bytes b) / real_of_int (bytes_per_second b))
     \<and> total_received_seconds (run_ops b ops) = Inr (real_of_int (total_received_bytes (run_ops b ops)) / real_of_int (bytes_per_second b))"
    using assms by (simp add: total_received_seconds_def)
  have le: "Reset \<notin> set ops \<Longrightarrow>
     real_of_int (total_received_bytes b) / real_of_int (bytes_per_second b)
       \<le> real_of_int (total_received_bytes (run_ops b ops)) / real_of_int (bytes_per_second b)"
    using assms received_run_ops [of ops b] by (simp add: divide_right_mono)
  have clr: "total_received_seconds (AudioBuffer_clear b) = total_received_seconds b"
    "buffer (AudioBuffer_clear b) = []"
    by (simp_all add: total_received_seconds_def AudioBuffer_clear_def)
  have rst: "total_received_seconds (AudioBuffer_reset b) = Inr 0"
    using assms by (simp add: total_received_seconds_def AudioBuffer_reset_def)
  from mono le clr rst show ?thesis by blast
qed

theorem total_received_monotone_witness:
  "total_received_seconds (AudioBuffer_init 1 1 1) = Inr 0
   \<and> total_received_seconds
       (run_ops (AudioBuffer_init 1 1 1) [Write [1, 2], Read (Some 1), Peek None, Clear, Write [3]])
     = Inr (3 / 2)"
  using total_received_monotone [of "AudioBuffer_init 1 1 1"
      "[Write [1, 2], Read (Some 1), Peek None, Clear, Write [3]]"]
  by (simp add: total_received_seconds_def AudioBuffer_init_def run_ops_def py_int_def
      AudioBuffer_write_def AudioBuffer_read_def AudioBuffer_clear_def)

lemma concat_drop_suffix: "suffix (concat (drop k ws)) (concat ws)"
proof -
  have "concat ws = concat (take k ws) @ concat (drop k ws)"
    by (metis append_take_drop_id concat_append)
  then show ?thesis by (rule suffixI)
qed

lemma read_all: "fst (AudioBuffer_read b None) = concat (buffer b)"
  by (simp add: AudioBuffer_read_def)

lemma buffer_write:
  "buffer (AudioBuffer_write b w)
     = fst (evict (max_bytes b) (buffer b @ [w]) (total_bytes b + int (length w)))"
  by (simp add: AudioBuffer_write_def split: prod.splits)

lemma total_bytes_write:
  "total_bytes (AudioBuffer_write b w)
     = snd (evict (max_bytes b) (buffer b @ [w]) (total_bytes b + int (length w)))"
  by (simp add: AudioBuffer_write_def split: prod.splits)

lemma write_blocks:
  assumes "buffer b = drop k ws"
  shows "\<exists>j. buffer (AudioBuffer_write b w) = drop j (ws @ [w])"
proof -
  let ?k = "min k (length ws)"
  have "buffer b @ [w] = drop ?k (ws @ [w])"
    using assms by (simp add: min_def)
  moreover obtain j where
    "fst (evict (max_bytes b) (buffer b @ [w]) (total_bytes b + int (length w)))
       = drop j (buffer b @ [w])"
    using evict_drop by blast
  ultimately have "buffer (AudioBuffer_write b w) = drop (j + ?k) (ws @ [w])"
    by (simp only: buffer_write drop_drop)
  then show ?thesis by blast
qed

lemma write_bound:
  assumes "buffer_inv b" and "0 \<le> max_bytes b"
  shows "available_bytes (AudioBuffer_write b w) \<le> max_bytes b"
  using assms evict_bound [of "total_bytes b + int (length w)" "buffer b @ [w]" "max_bytes b"]
  by (simp add: available_bytes_def total_bytes_write buffer_inv_def)

lemma writes_blocks: "\<exists>k. buffer (run_ops (AudioBuffer_init ms sr ch) (map Write ws)) = drop k ws"
proof (induction ws rule: rev_induct)
  case Nil
  show ?case by (simp add: run_ops_def AudioBuffer_init_def)
next
  case (snoc w ws)
  then obtain k where "buffer (run_ops (AudioBuffer_init ms sr ch) (map Write ws)) = drop k ws"
    by blast
  from write_blocks [OF this, of w] show ?case
    by (simp add: run_ops_snoc)
qed

lemma writes_bound:
  assumes "0 \<le> max_bytes (AudioBuffer_init ms sr ch)"
  shows "available_bytes (run_ops (AudioBuffer_init ms sr ch) (map Write ws))
           \<le> max_bytes (AudioBuffer_init ms sr ch)"
proof (cases ws rule: rev_cases)
  case Nil
  with assms show ?thesis
    by (simp add: run_ops_def available_bytes_def AudioBuffer_init_def)
next
  case (snoc vs w)
  let ?b = "run_ops (AudioBuffer_init ms sr ch) (map Write vs)"
  have "buffer_inv ?b" by (simp add: buffer_inv_run_ops buffer_inv_init)
  moreover have "0 \<le> max_bytes ?b" using assms by simp
  ultimately have "available_bytes (AudioBuffer_write ?b w) \<le> max_bytes ?b"
    by (rule write_bound)
  with snoc show ?thesis by (simp add: run_ops_snoc)
qed

text \<open>
  Claim C4. A buffer with a non-negative capacity is created and receives any sequence of
  \<open>write\<close> calls \<open>ws\<close> (in particular one whose total size exceeds
  \<open>max_bytes\<close>). Afterwards \<open>available_bytes()\<close> is at most \<open>max_bytes\<close>,
  the deque holds the written blocks without some number of the oldest ones, and the bytes
  that a draining \<open>read()\<close> returns are a suffix of all bytes written. Since \<open>ws\<close>
  is arbitrary, this holds after every write of a sequence.
\<close>

theorem ring_buffer_overflow_keeps_suffix:
  assumes "0 \<le> max_bytes (AudioBuffer_init ms sr ch)"
  shows "available_bytes (run_ops (AudioBuffer_init ms sr ch) (map Write ws))
           \<le> max_bytes (AudioBuffer_init ms sr ch)
       \<and> (\<exists>k. buffer (run_ops (AudioBuffer_init ms sr ch) (map Write ws)) = drop k ws)
       \<and> suffix (fst (AudioBuffer_read (run_ops (AudioBuffer_init ms sr ch) (map Write ws)) None))
            (concat ws)"
proof -
  obtain k where k: "buffer (run_ops (AudioBuffer_init ms sr ch) (map Write ws)) = drop k ws"
    using writes_blocks by blast
  then have "suffix (fst (AudioBuffer_read (run_ops (AudioBuffer_init ms sr ch) (map Write ws)) None))
            (concat ws)"
    by (simp add: read_all concat_drop_suffix)
  with k writes_bound [OF assms] show ?thesis by blast
qed

theorem ring_buffer_overflow_keeps_suffix_witness:
  "0 \<le> max_bytes (AudioBuffer_init 1 1 1)
   \<and> int (length (concat [[1, 2], [3, 4], [5 :: 8 word]])) > max_bytes (AudioBuffer_init 1 1 1)
   \<and> available_bytes (run_ops (AudioBuffer_init 1 1 1) (map Write [[1, 2], [3, 4], [5]])) = 1
   \<and> fst (AudioBuffer_read (run_ops (AudioBuffer_init 1 1 1) (map Write [[1, 2], [3, 4], [5]])) None)
       = [5]
   \<and> suffix [5 :: 8 word] (concat [[1, 2], [3, 4], [5]])"
  using ring_buffer_overflow_keeps_suffix [of 1 1 1 "[[1, 2], [3, 4], [5]]"]
  by (simp add: AudioBuffer_init_def run_ops_def py_int_def available_bytes_def
      AudioBuffer_write_def AudioBuffer_read_def)

lemma evict_oversized:
  "tot = int (length (concat (bs @ [data]))) \<Longrightarrow> int (length data) > mx \<Longrightarrow>
   evict mx (bs @ [data]) tot = ([], 0)"
  by (induction bs arbitrary: tot) auto

text \<open>
  Claim C10. A buffer is created and used through any sequence of calls. A \<open>write(data)\<close>
  with \<open>len(data) > max_bytes\<close> then leaves \<open>available_bytes()\<close> at 0 and the
  deque empty: the eviction loop removes every block, the one just written included. The
  received-bytes counter still grows by \<open>len(data)\<close>.
\<close>

theorem oversized_write_discards_everything:
  assumes "int (length data) > max_bytes (AudioBuffer_init ms sr ch)"
  shows "available_bytes (AudioBuffer_write (run_ops (AudioBuffer_init ms sr ch) ops) data) = 0
       \<and> buffer (AudioBuffer_write (run_ops (AudioBuffer_init ms sr ch) ops) data) = []
       \<and> total_received_bytes (AudioBuffer_write (run_ops (AudioBuffer_init ms sr ch) ops) data)
           = total_received_bytes (run_ops (AudioBuffer_init ms sr ch) ops) + int (length data)"
proof -
  let ?b = "run_ops (AudioBuffer_init ms sr ch) ops"
  have "buffer_inv ?b" by (simp add: buffer_inv_run_ops buffer_inv_init)
  then have "total_bytes ?b + int (length data) = int (length (concat (buffer ?b @ [data])))"
    by (simp add: buffer_inv_def)
  moreover have "int (length data) > max_bytes ?b" using assms by simp
  ultimately have "evict (max_bytes ?b) (buffer ?b @ [data]) (total_bytes ?b + int (length data))
      = ([], 0)"
    by (rule evict_oversized)
  then show ?thesis
    by (simp add: AudioBuffer_write_def available_bytes_def)
qed

theorem oversized_write_discards_everything_witness:
  "int (length [7, 8, 9 :: 8 word]) > max_bytes (AudioBuffer_init 1 1 1)
   \<and> available_bytes (run_ops (AudioBuffer_init 1 1 1) [Write [1]]) = 1
   \<and> available_bytes (AudioBuffer_write (run_ops (AudioBuffer_init 1 1 1) [Write [1]]) [7, 8, 9]) = 0
   \<and> total_received_bytes
        (AudioBuffer_write (run_ops (AudioBuffer_init 1 1 1) [Write [1]]) [7, 8, 9]) = 4"
  using oversized_write_discards_everything [of 1 1 1 "[7, 8, 9]" "[Write [1]]"]
  by (simp add: AudioBuffer_init_def run_ops_def py_int_def available_bytes_def
      AudioBuffer_write_def)

section \<open>Properties of the transcript merger\<close>

lemma similarity_self:
  assumes "remove_blanks t \<noteq> []"
  shows "calculate_text_similarity t t = 1"
proof -
  have "t \<noteq> []" using assms by (auto simp: remove_blanks_def)
  moreover have "card (set (remove_blanks t)) \<noteq> 0" using assms by simp
  ultimately show ?thesis using assms
    by (simp add: calculate_text_similarity_def Let_def)
qed

lemma similarity_hello_there:
  "calculate_text_similarity ''hello there'' ''hello there'' = 1"
  by (rule similarity_self) (simp add: remove_blanks_def)

text \<open>
  Claim C1, as stated, fails on its first example. The spans \<open>(0.0, 2.0)\<close> and
  \<open>(1.8, 3.5)\<close> overlap by 0.2 seconds, which does not exceed the threshold of 0.5
  seconds, so the text is never compared and the second span is appended: the merged
  transcript has two spans, not one.
\<close>

theorem merge_example_counterexample:
  "length (segments (get_merged_result
     (add_segment (add_segment (TranscriptMerger_init default_overlap_threshold)
        (span 0 2 ''hello there'')) (span 1.8 3.5 ''hello there'')))) = 2
   \<and> length (segments (get_merged_result
     (add_segment (add_segment (TranscriptMerger_init default_overlap_threshold)
        (span 0 2 ''hello there'')) (span 1.8 3.5 ''hello there'')))) \<noteq> 1"
  by (simp add: span_def default_overlap_threshold_def add_segment_def
      TranscriptMerger_init_def get_merged_result_def calculate_time_overlap_def)

text \<open>
  Claim C1, amended. From an empty merger with the default threshold of 0.5 seconds:
  the spans \<open>(0.0, 2.0, "hello there")\<close> and \<open>(1.8, 3.5, "hello there")\<close> overlap by
  0.2 seconds and both are kept (two spans); a second span that overlaps the first by
  more than the threshold and has the same text, \<open>(1.0, 3.5, "hello there")\<close>, is
  discarded (one span); the spans \<open>(0.0, 2.0, "hello")\<close> and \<open>(5.0, 7.0, "hello")\<close>
  are both kept (two spans).
\<close>

theorem merge_examples:
  "calculate_time_overlap (span 0 2 ''hello there'') (span 1.8 3.5 ''hello there'') = 0.2
   \<and> length (segments (get_merged_result
     (add_segment (add_segment (TranscriptMerger_init default_overlap_threshold)
        (span 0 2 ''hello there'')) (span 1.8 3.5 ''hello there'')))) = 2
   \<and> length (segments (get_merged_result
     (add_segment (add_segment (TranscriptMerger_init default_overlap_threshold)
        (span 0 2 ''hello there'')) (span 1 3.5 ''hello there'')))) = 1
   \<and> length (segments (get_merged_result
     (add_segment (add_segment (TranscriptMerger_init default_overlap_threshold)
        (span 0 2 ''hello'')) (span 5 7 ''hello'')))) = 2"
  by (simp add: span_def default_overlap_threshold_def add_segment_def
      TranscriptMerger_init_def get_merged_result_def calculate_time_overlap_def
      similarity_hello_there)

text \<open>
  Claim C9. For every list of accepted spans, \<open>get_merged_result()\<close> returns the same
  spans (as a multiset) in ascending order of start time, spans with equal start times
  keeping their insertion order; the full text is the concatenation of the span texts
  in that sorted order; the duration is the end of the last sorted span minus the start
  of the first sorted span, and 0 when there is no span.
\<close>

theorem get_merged_result_sorted:
  "sorted (map start_time (segments (get_merged_result m)))
   \<and> mset (segments (get_merged_result m)) = mset (merger_segments m)
   \<and> (\<forall>k. filter (\<lambda>s. start_time s = k) (segments (get_merged_result m))
          = filter (\<lambda>s. start_time s = k) (merger_segments m))
   \<and> full_text (get_merged_result m) = concat (map text_of (segments (get_merged_result m)))
   \<and> duration (get_merged_result m)
        = (if merger_segments m = [] then 0
           else end_time (last (segments (get_merged_result m)))
                  - start_time (hd (segments (get_merged_result m))))"
proof -
  have seg: "segments (get_merged_result m) = sort_key start_time (merger_segments m)"
    by (simp add: get_merged_result_def Let_def)
  have empty: "sort_key start_time (merger_segments m) = [] \<longleftrightarrow> merger_segments m = []"
    by (metis mset_sort mset_zero_iff)
  have "sorted (map start_time (segments (get_merged_result m)))"
    by (simp only: seg sorted_sort_key)
  moreover have "mset (segments (get_merged_result m)) = mset (merger_segments m)"
    by (simp only: seg mset_sort)
  moreover have "\<forall>k. filter (\<lambda>s. start_time s = k) (segments (get_merged_result m))
          = filter (\<lambda>s. start_time s = k) (merger_segments m)"
    by (simp only: seg sort_key_stable) simp
  moreover have "full_text (get_merged_result m)
      = concat (map text_of (segments (get_merged_result m)))"
    by (simp add: get_merged_result_def Let_def)
  moreover have "duration (get_merged_result m)
        = (if merger_segments m = [] then 0
           else end_time (last (segments (get_merged_result m)))
                  - start_time (hd (segments (get_merged_result m))))"
    using empty by (simp add: get_merged_result_def Let_def)
  ultimately show ?thesis by blast
qed

text \<open>
  An instance of C9 where insertion order and time order differ: the span starting at 5
  was accepted before the span starting at 0.
\<close>

theorem get_merged_result_sorted_witness:
  "map text_of (segments (get_merged_result
      \<lparr> overlap_threshold = 0.5, merger_segments = [span 5 7 ''b'', span 0 2 ''a''] \<rparr>))
     = [''a'', ''b'']
   \<and> full_text (get_merged_result
      \<lparr> overlap_threshold = 0.5, merger_segments = [span 5 7 ''b'', span 0 2 ''a''] \<rparr>) = ''ab''
   \<and> duration (get_merged_result
      \<lparr> overlap_threshold = 0.5, merger_segments = [span 5 7 ''b'', span 0 2 ''a''] \<rparr>) = 7"
  using get_merged_result_sorted
    [of "\<lparr> overlap_threshold = 0.5, merger_segments = [span 5 7 ''b'', span 0 2 ''a''] \<rparr>"]
  by (simp add: get_merged_result_def span_def)

section \<open>Properties of the chunk writer\<close>

lemma evict_noop: "tot \<le> mx \<Longrightarrow> evict mx bs tot = (bs, tot)"
  by (cases bs) auto

lemma read_some:
  assumes "buffer_inv b" and "0 \<le> n"
  shows "fst (AudioBuffer_read b (Some n)) = take (nat n) (concat (buffer b))"
    and "total_bytes (snd (AudioBuffer_read b (Some n))) = total_bytes b - min n (total_bytes b)"
proof -
  obtain buf tot result where
    rl: "read_loop (buffer b) (total_bytes b) n [] = (buf, tot, result)"
    by (cases "read_loop (buffer b) (total_bytes b) n []") auto
  note facts = read_loop_concat [OF assms(2) rl]
  show "fst (AudioBuffer_read b (Some n)) = take (nat n) (concat (buffer b))"
    using facts rl by (simp add: AudioBuffer_read_def)
  show "total_bytes (snd (AudioBuffer_read b (Some n))) = total_bytes b - min n (total_bytes b)"
    using facts rl assms by (auto simp add: AudioBuffer_read_def buffer_inv_def)
qed

lemma py_int_of_int [simp]: "py_int (real_of_int k) = k"
  by (simp add: py_int_def)

lemma div_unique_int:
  fixes n q t cb :: int
  assumes "n = q * cb + t" "0 \<le> t" "t < cb"
  shows "n div cb = q"
  using assms by (simp add: div_pos_pos_trivial)

lemma write_fields [simp]:
  "max_bytes (AudioBuffer_write b w) = max_bytes b"
  "bytes_per_second (AudioBuffer_write b w) = bytes_per_second b"
  "total_received_bytes (AudioBuffer_write b w) = total_received_bytes b + int (length w)"
  by (simp_all add: AudioBuffer_write_def split: prod.splits)

lemma write_no_evict:
  assumes "total_bytes b + int (length w) \<le> max_bytes b"
  shows "total_bytes (AudioBuffer_write b w) = total_bytes b + int (length w)"
  using assms by (simp add: AudioBuffer_write_def evict_noop)

lemma take_nonempty: "0 < k \<Longrightarrow> k \<le> length xs \<Longrightarrow> take k xs \<noteq> []"
  by (cases xs) auto

lemma save_chunk_full:
  assumes run: "is_running cw"
    and inv: "buffer_inv (cw_buffer cw)"
    and bps: "0 < cw_bytes_per_second cw"
    and D: "chunk_duration cw = 60"
    and enough: "60 * cw_bytes_per_second cw \<le> total_bytes (cw_buffer cw)"
  shows "\<exists>cw'. save_chunk cw = Inr cw'
     \<and> is_running cw' \<and> cw_bytes_per_second cw' = cw_bytes_per_second cw
     \<and> chunk_duration cw' = chunk_duration cw
     \<and> cw_buffer cw' = snd (AudioBuffer_read (cw_buffer cw) (Some (60 * cw_bytes_per_second cw)))
     \<and> chunk_index cw' = chunk_index cw + 1
     \<and> length (wav_files cw') = length (wav_files cw) + 1"
proof -
  let ?cb = "60 * cw_bytes_per_second cw"
  have cb: "py_int (chunk_duration cw * real_of_int (cw_bytes_per_second cw)) = ?cb"
    using D py_int_of_int [of ?cb] by simp
  have pos: "0 \<le> ?cb" using bps by simp
  have "length (concat (buffer (cw_buffer cw))) \<ge> nat ?cb"
    using inv enough by (simp add: buffer_inv_def)
  moreover have "0 < nat ?cb" using bps by simp
  ultimately have "take (nat ?cb) (concat (buffer (cw_buffer cw))) \<noteq> []"
    by (intro take_nonempty)
  then have ne: "fst (AudioBuffer_read (cw_buffer cw) (Some ?cb)) \<noteq> []"
    using read_some(1) [OF inv pos] by simp
  show ?thesis
    using run bps ne
    by (simp add: save_chunk_def cb Let_def case_prod_beta)
qed

lemma write_small_step:
  assumes inv: "stream_inv cw n" and len: "int (length data) \<le> 60 * cw_bytes_per_second cw"
  shows "\<exists>cw'. ChunkWriter_write cw data = Inr cw' \<and> stream_inv cw' (n + int (length data))
           \<and> cw_bytes_per_second cw' = cw_bytes_per_second cw"
proof -
  let ?bps = "cw_bytes_per_second cw"
  let ?b = "cw_buffer cw"
  let ?b1 = "AudioBuffer_write ?b data"
  let ?cw1 = "cw\<lparr> cw_buffer := ?b1 \<rparr>"
  from inv have run: "is_running cw" and binv: "buffer_inv ?b" and bps: "0 < ?bps"
    and bb: "bytes_per_second ?b = ?bps" and D: "chunk_duration cw = 60"
    and mx: "max_bytes ?b = 120 * ?bps" and t: "total_bytes ?b < 60 * ?bps"
    and n: "n = chunk_index cw * (60 * ?bps) + total_bytes ?b"
    and files: "int (length (wav_files cw)) = chunk_index cw"
    by (simp_all add: stream_inv_def)
  have tot1: "total_bytes ?b1 = total_bytes ?b + int (length data)"
    using t len mx by (intro write_no_evict) simp
  have binv1: "buffer_inv ?b1" using binv by (rule buffer_inv_write)
  have secs: "available_seconds ?b1 = Inr (real_of_int (total_bytes ?b1) / real_of_int ?bps)"
    using bps bb by (simp add: available_seconds_def available_bytes_def)
  have ge: "real_of_int (total_bytes ?b1) / real_of_int ?bps \<ge> 60
              \<longleftrightarrow> 60 * ?bps \<le> total_bytes ?b1"
  proof -
    have "real_of_int (total_bytes ?b1) / real_of_int ?bps \<ge> 60
            \<longleftrightarrow> 60 * real_of_int ?bps \<le> real_of_int (total_bytes ?b1)"
      using bps by (simp add: pos_le_divide_eq)
    also have "\<dots> \<longleftrightarrow> real_of_int (60 * ?bps) \<le> real_of_int (total_bytes ?b1)" by simp
    also have "\<dots> \<longleftrightarrow> 60 * ?bps \<le> total_bytes ?b1" by (simp only: of_int_le_iff)
    finally show ?thesis .
  qed
  show ?thesis
  proof (cases "60 * ?bps \<le> total_bytes ?b1")
    case False
    then have "ChunkWriter_write cw data = Inr ?cw1"
      using run secs ge D by (simp add: ChunkWriter_write_def Let_def)
    moreover have "stream_inv ?cw1 (n + int (length data))"
      using False run binv1 bps bb D mx tot1 n files by (simp add: stream_inv_def)
    ultimately show ?thesis by simp
  next
    case True
    have w: "ChunkWriter_write cw data = save_chunk ?cw1"
      using run secs ge D True by (simp add: ChunkWriter_write_def Let_def)
    have "\<exists>cw'. save_chunk ?cw1 = Inr cw'
     \<and> is_running cw' \<and> cw_bytes_per_second cw' = cw_bytes_per_second ?cw1
     \<and> chunk_duration cw' = chunk_duration ?cw1
     \<and> cw_buffer cw' = snd (AudioBuffer_read (cw_buffer ?cw1) (Some (60 * cw_bytes_per_second ?cw1)))
     \<and> chunk_index cw' = chunk_index ?cw1 + 1
     \<and> length (wav_files cw') = length (wav_files ?cw1) + 1"
      using run binv1 bps D True by (intro save_chunk_full) simp_all
    then obtain cw' where s: "save_chunk ?cw1 = Inr cw'" and run': "is_running cw'"
      and bps': "cw_bytes_per_second cw' = ?bps" and D': "chunk_duration cw' = 60"
      and buf': "cw_buffer cw' = snd (AudioBuffer_read ?b1 (Some (60 * ?bps)))"
      and idx': "chunk_index cw' = chunk_index cw + 1"
      and files': "length (wav_files cw') = length (wav_files cw) + 1"
      using D by auto
    have pos: "0 \<le> 60 * ?bps" using bps by simp
    have tot': "total_bytes (cw_buffer cw') = total_bytes ?b1 - 60 * ?bps"
      using read_some(2) [OF binv1 pos] True by (simp add: buf' min_def)
    have binv': "buffer_inv (cw_buffer cw')"
      unfolding buf' using binv1 by (rule buffer_inv_read)
    have "stream_inv cw' (n + int (length data))"
      using run' binv' bps bps' D' bb mx tot' tot1 t len n files files' idx'
      by (simp add: stream_inv_def buf' algebra_simps)
    with w s bps' show ?thesis by simp
  qed
qed

lemma write_all_small:
  assumes "stream_inv cw n"
    and "\<forall>data\<in>set stream. int (length data) \<le> 60 * cw_bytes_per_second cw"
  shows "\<exists>cw'. write_all cw stream = Inr cw'
           \<and> stream_inv cw' (n + int (length (concat stream)))
           \<and> cw_bytes_per_second cw' = cw_bytes_per_second cw"
  using assms
proof (induction stream arbitrary: cw n)
  case Nil
  then show ?case by simp
next
  case (Cons data rest)
  from Cons.prems obtain cw1 where
    w: "ChunkWriter_write cw data = Inr cw1"
    and inv1: "stream_inv cw1 (n + int (length data))"
    and bps1: "cw_bytes_per_second cw1 = cw_bytes_per_second cw"
    using write_small_step [of cw n data] by auto
  have "\<forall>d\<in>set rest. int (length d) \<le> 60 * cw_bytes_per_second cw1"
    using Cons.prems(2) bps1 by simp
  from Cons.IH [OF inv1 this] obtain cw' where
    "write_all cw1 rest = Inr cw'"
    "stream_inv cw' (n + int (length data) + int (length (concat rest)))"
    "cw_bytes_per_second cw' = cw_bytes_per_second cw1"
    by blast
  with w bps1 show ?case by (simp add: add.assoc)
qed

lemma stream_inv_start:
  assumes "chunk_duration (ChunkWriter_init config mid sr ch cd od) = 60"
    and "0 < cw_bytes_per_second (ChunkWriter_init config mid sr ch cd od)"
  shows "stream_inv (ChunkWriter_start (ChunkWriter_init config mid sr ch cd od) now) 0"
proof -
  let ?bps = "py_or sr (cfg_sample_rate config) * py_or ch (cfg_channels config) * 2"
  have D: "py_or cd (real_of_int (cfg_chunk_duration config)) = 60"
    using assms(1) by (simp add: ChunkWriter_init_def Let_def)
  have bps: "0 < ?bps"
    using assms(2) by (simp add: ChunkWriter_init_def Let_def)
  have "py_int (60 * 2 * real_of_int ?bps) = 120 * ?bps"
    using py_int_of_int [of "120 * ?bps"] by simp
  then show ?thesis
    using bps
    by (simp add: stream_inv_def ChunkWriter_start_def ChunkWriter_init_def Let_def D
        AudioBuffer_init_def AudioBuffer_reset_def buffer_inv_def)
qed

text \<open>
  Claim C2, amended. A writer with chunk duration 60 seconds (and any overlap, 0.5
  seconds included) and a positive byte rate is started and receives a stream in which
  no single \<open>write\<close> call carries more than 60 seconds of audio. Then every call
  returns, and the number of non-final chunks emitted (the chunk count, which is also
  the number of files written before \<open>stop()\<close>) is \<open>floor(T / 60)\<close> for the
  stream's duration \<open>T\<close>, however the stream is split into such calls.
\<close>

theorem chunk_count_short_writes:
  assumes "chunk_duration (ChunkWriter_init config mid sr ch cd od) = 60"
    and "0 < cw_bytes_per_second (ChunkWriter_init config mid sr ch cd od)"
    and "\<forall>data\<in>set stream.
           stream_seconds (ChunkWriter_init config mid sr ch cd od) [data] \<le> 60"
  shows "\<exists>cw. write_all (ChunkWriter_start (ChunkWriter_init config mid sr ch cd od) now) stream
               = Inr cw
          \<and> get_chunk_count cw
               = \<lfloor>stream_seconds (ChunkWriter_init config mid sr ch cd od) stream / 60\<rfloor>
          \<and> int (length (wav_files cw))
               = \<lfloor>stream_seconds (ChunkWriter_init config mid sr ch cd od) stream / 60\<rfloor>"
proof -
  let ?cw0 = "ChunkWriter_init config mid sr ch cd od"
  let ?s = "ChunkWriter_start ?cw0 now"
  let ?bps = "cw_bytes_per_second ?cw0"
  let ?n = "int (length (concat stream))"
  have bps_s: "cw_bytes_per_second ?s = ?bps" by (simp add: ChunkWriter_start_def)
  have short: "\<forall>data\<in>set stream. int (length data) \<le> 60 * cw_bytes_per_second ?s"
  proof
    fix data assume "data \<in> set stream"
    with assms(3) have "real (length data) / real_of_int ?bps \<le> 60"
      by (simp add: stream_seconds_def)
    then have "real (length data) \<le> 60 * real_of_int ?bps"
      using assms(2) by (simp add: pos_divide_le_eq)
    then have "real_of_int (int (length data)) \<le> real_of_int (60 * ?bps)" by simp
    then have "int (length data) \<le> 60 * ?bps" by (simp only: of_int_le_iff)
    then show "int (length data) \<le> 60 * cw_bytes_per_second ?s" by (simp only: bps_s)
  qed
  from write_all_small [OF stream_inv_start [OF assms(1,2)] short]
  obtain cw where w: "write_all ?s stream = Inr cw" and inv: "stream_inv cw ?n"
    and same: "cw_bytes_per_second cw = ?bps"
    by (auto simp: bps_s)
  from inv same have n: "?n = chunk_index cw * (60 * ?bps) + total_bytes (cw_buffer cw)"
    and lt: "total_bytes (cw_buffer cw) < 60 * ?bps"
    and binv: "buffer_inv (cw_buffer cw)"
    and files: "int (length (wav_files cw)) = chunk_index cw"
    by (simp_all add: stream_inv_def)
  have nonneg: "0 \<le> total_bytes (cw_buffer cw)"
    using binv by (simp add: buffer_inv_def)
  have idx: "?n div (60 * ?bps) = chunk_index cw"
    using n nonneg lt by (rule div_unique_int)
  have "stream_seconds ?cw0 stream / 60 = real_of_int ?n / real_of_int (60 * ?bps)"
    by (simp add: stream_seconds_def)
  then have "\<lfloor>stream_seconds ?cw0 stream / 60\<rfloor> = ?n div (60 * ?bps)"
    by (simp only: floor_divide_of_int_eq)
  with idx have "\<lfloor>stream_seconds ?cw0 stream / 60\<rfloor> = chunk_index cw" by simp
  with w files show ?thesis by (simp add: get_chunk_count_def)
qed

lemma slice_from_replicate:
  "slice_from n (replicate m x)
     = (if 0 \<le> n then replicate (m - nat n) x else replicate (m - (m - nat (- n))) x)"
  by (simp add: slice_from_def)

lemmas chunk_eval =
  ChunkWriter_init_def default_audio_config_def py_or_def ChunkWriter_start_def
  AudioBuffer_init_def AudioBuffer_reset_def py_int_def ChunkWriter_write_def
  AudioBuffer_write_def available_seconds_def available_bytes_def save_chunk_def
  AudioBuffer_read_def chunk_start_time_def ChunkInfo_init_def slice_from_replicate Let_def

theorem chunk_count_short_writes_witness:
  "map_sum id get_chunk_count
     (write_all (ChunkWriter_start (ChunkWriter_init default_audio_config 1 None None None None) 0)
        [replicate 1920000 0, replicate 32000 0]) = Inr 1
   \<and> \<lfloor>stream_seconds (ChunkWriter_init default_audio_config 1 None None None None)
        [replicate 1920000 0, replicate 32000 0] / 60\<rfloor> = 1"
  using chunk_count_short_writes [of default_audio_config 1 None None None None
      "[replicate 1920000 0, replicate 32000 0]" 0]
  by (simp add: chunk_eval get_chunk_count_def stream_seconds_def)

text \<open>
  Claim C2, as stated, fails when a call carries more than one chunk of audio:
  \<open>write\<close> emits at most one chunk per call. With the default configuration (16 kHz,
  mono, 60-second chunks, 0.5 seconds of overlap) a stream of 120 seconds delivered in a
  single call of 3840000 bytes emits one non-final chunk, and \<open>floor(120 / 60)\<close> is 2.
\<close>

theorem chunk_count_counterexample:
  "map_sum id get_chunk_count
     (write_all (ChunkWriter_start (ChunkWriter_init default_audio_config 1 None None None None) 0)
        [replicate 3840000 0]) = Inr 1
  \<and> \<lfloor>stream_seconds (ChunkWriter_init default_audio_config 1 None None None None)
        [replicate 3840000 0]
       / chunk_duration (ChunkWriter_init default_audio_config 1 None None None None)\<rfloor> = 2"
  by (simp add: chunk_eval get_chunk_count_def stream_seconds_def)

lemma chunk_timing:
  assumes "0 \<le> chunk_index cw" and "0 \<le> overlap_duration cw"
    and "overlap_duration cw \<le> chunk_duration cw"
  shows "chunk_timing_ok (chunk_duration cw) (overlap_duration cw) (cw_bytes_per_second cw)
           (ChunkInfo_init (chunk_index cw) p (max 0 (chunk_start_time cw))
              (chunk_start_time cw + real (length data) / real_of_int (cw_bytes_per_second cw)) dt)
           data"
proof (cases "chunk_index cw > 0")
  case False
  with assms have "chunk_index cw = 0" by simp
  with assms show ?thesis
    by (simp add: chunk_timing_ok_def ChunkInfo_init_def chunk_start_time_def)
next
  case True
  then have "1 \<le> real_of_int (chunk_index cw)" by simp
  moreover have "0 \<le> chunk_duration cw" using assms by simp
  ultimately have "1 * chunk_duration cw \<le> real_of_int (chunk_index cw) * chunk_duration cw"
    by (rule mult_right_mono)
  with assms have "0 \<le> real_of_int (chunk_index cw) * chunk_duration cw - overlap_duration cw"
    by simp
  with True show ?thesis
    by (simp add: chunk_timing_ok_def ChunkInfo_init_def chunk_start_time_def Let_def)
qed

lemma timing_inv_emit:
  assumes inv: "timing_inv D O' bps cw" and "0 \<le> O'" and "O' \<le> D"
    and b: "bytes_per_second buf = bps"
  shows "timing_inv D O' bps
     (cw\<lparr> cw_buffer := buf, overlap_data := ov,
          wav_files := wav_files cw @ [(p, data)],
          chunk_index := chunk_index cw + 1,
          emitted := emitted cw @ [ChunkInfo_init (chunk_index cw) p (max 0 (chunk_start_time cw))
              (chunk_start_time cw + real (length data) / real_of_int (cw_bytes_per_second cw))
              dt] \<rparr>)"
proof -
  from inv have D: "chunk_duration cw = D" and O: "overlap_duration cw = O'"
    and bps: "cw_bytes_per_second cw = bps"
    and idx: "chunk_index cw = int (length (emitted cw))"
    and idxs: "map ci_index (emitted cw) = map int [0..<length (emitted cw)]"
    and all: "list_all2 (chunk_timing_ok D O' bps) (emitted cw) (map snd (wav_files cw))"
    by (simp_all add: timing_inv_def)
  have "0 \<le> chunk_index cw" using idx by simp
  then have "chunk_timing_ok D O' bps
           (ChunkInfo_init (chunk_index cw) p (max 0 (chunk_start_time cw))
              (chunk_start_time cw + real (length data) / real_of_int (cw_bytes_per_second cw)) dt)
           data"
    using chunk_timing [of cw p data dt] assms(2,3) D O bps by simp
  with all have "list_all2 (chunk_timing_ok D O' bps)
      (emitted cw @ [ChunkInfo_init (chunk_index cw) p (max 0 (chunk_start_time cw))
              (chunk_start_time cw + real (length data) / real_of_int (cw_bytes_per_second cw)) dt])
      (map snd (wav_files cw) @ [data])"
    by (simp add: list_all2_appendI)
  then show ?thesis
    using D O bps idx idxs b
    by (simp add: timing_inv_def ChunkInfo_init_def)
qed

lemma chunk_start_time_upd [simp]:
  "chunk_start_time (cw\<lparr> cw_buffer := b \<rparr>) = chunk_start_time cw"
  "chunk_start_time (cw\<lparr> overlap_data := ov \<rparr>) = chunk_start_time cw"
  "chunk_start_time (cw\<lparr> is_running := r \<rparr>) = chunk_start_time cw"
  by (simp_all add: chunk_start_time_def Let_def)

lemma timing_inv_buffer:
  "timing_inv D O' bps cw \<Longrightarrow> bytes_per_second buf = bps \<Longrightarrow>
   timing_inv D O' bps (cw\<lparr> cw_buffer := buf \<rparr>)"
  by (simp add: timing_inv_def)

lemma save_chunk_timing:
  assumes inv: "timing_inv D O' bps cw" and O: "0 \<le> O'" "O' \<le> D" and bps: "bps \<noteq> 0"
  shows "\<exists>cw'. save_chunk cw = Inr cw' \<and> timing_inv D O' bps cw'
            \<and> is_running cw' = is_running cw"
proof (cases "is_running cw")
  case False
  with inv show ?thesis by (simp add: save_chunk_def)
next
  case True
  let ?n = "py_int (chunk_duration cw * real_of_int (cw_bytes_per_second cw))"
  let ?r = "AudioBuffer_read (cw_buffer cw) (Some ?n)"
  have bb: "bytes_per_second (snd ?r) = bps"
    using inv by (simp add: timing_inv_def)
  have cbps: "cw_bytes_per_second cw = bps" using inv by (simp add: timing_inv_def)
  show ?thesis
  proof (cases "fst ?r = []")
    case empty: True
    have "save_chunk cw = Inr (cw\<lparr> cw_buffer := snd ?r \<rparr>)"
      using True empty by (simp add: save_chunk_def Let_def case_prod_beta)
    with timing_inv_buffer [OF inv bb] show ?thesis by simp
  next
    case False
    let ?data = "if overlap_data cw \<noteq> [] then overlap_data cw @ fst ?r else fst ?r"
    let ?ob = "py_int (overlap_duration cw * real_of_int (cw_bytes_per_second cw))"
    let ?ov = "if int (length ?data) > ?ob then slice_from (- ?ob) ?data else ?data"
    let ?p = "ChunkFile (output_dir cw) (chunk_index cw)"
    let ?cw' = "cw\<lparr> cw_buffer := snd ?r, overlap_data := ?ov,
          wav_files := wav_files cw @ [(?p, ?data)],
          chunk_index := chunk_index cw + 1,
          emitted := emitted cw @ [ChunkInfo_init (chunk_index cw) ?p (max 0 (chunk_start_time cw))
              (chunk_start_time cw + real (length ?data) / real_of_int (cw_bytes_per_second cw))
              (start_datetime cw)] \<rparr>"
    have "save_chunk cw = Inr ?cw'"
      using True False bps cbps by (simp add: save_chunk_def Let_def case_prod_beta)
    moreover have "timing_inv D O' bps ?cw'"
      using inv O bb by (rule timing_inv_emit)
    moreover have "is_running ?cw' = is_running cw" by simp
    ultimately show ?thesis by blast
  qed
qed

lemma write_timing:
  assumes inv: "timing_inv D O' bps cw" and O: "0 \<le> O'" "O' \<le> D" and bps: "bps \<noteq> 0"
  shows "\<exists>cw'. ChunkWriter_write cw data = Inr cw' \<and> timing_inv D O' bps cw'
            \<and> is_running cw' = is_running cw"
proof (cases "is_running cw")
  case False
  with inv show ?thesis by (simp add: ChunkWriter_write_def)
next
  case True
  let ?cw1 = "cw\<lparr> cw_buffer := AudioBuffer_write (cw_buffer cw) data \<rparr>"
  have bb: "bytes_per_second (AudioBuffer_write (cw_buffer cw) data) = bps"
    using inv by (simp add: timing_inv_def)
  have inv1: "timing_inv D O' bps ?cw1" using inv bb by (rule timing_inv_buffer)
  obtain secs where secs: "available_seconds (cw_buffer ?cw1) = Inr secs"
    using bb bps by (simp add: available_seconds_def)
  show ?thesis
  proof (cases "secs \<ge> chunk_duration ?cw1")
    case False
    with True secs inv1 show ?thesis by (simp add: ChunkWriter_write_def Let_def)
  next
    case ge: True
    have "ChunkWriter_write cw data = save_chunk ?cw1"
      using True secs ge by (simp add: ChunkWriter_write_def Let_def)
    with save_chunk_timing [OF inv1 O bps] show ?thesis by simp
  qed
qed

lemma write_all_timing:
  assumes "timing_inv D O' bps cw" and "0 \<le> O'" and "O' \<le> D" and "bps \<noteq> 0"
  shows "\<exists>cw'. write_all cw stream = Inr cw' \<and> timing_inv D O' bps cw'
            \<and> is_running cw' = is_running cw"
  using assms(1)
proof (induction stream arbitrary: cw)
  case Nil
  then show ?case by simp
next
  case (Cons data rest)
  from write_timing [OF Cons.prems assms(2-4), of data] obtain cw1 where
    w: "ChunkWriter_write cw data = Inr cw1" and inv1: "timing_inv D O' bps cw1"
    and r1: "is_running cw1 = is_running cw" by blast
  from Cons.IH [OF inv1] obtain cw' where
    "write_all cw1 rest = Inr cw'" "timing_inv D O' bps cw'" "is_running cw' = is_running cw1"
    by blast
  with w r1 show ?case by simp
qed

lemma stop_timing:
  assumes inv: "timing_inv D O' bps cw" and O: "0 \<le> O'" "O' \<le> D" and bps: "bps \<noteq> 0"
  shows "\<exists>r cw'. ChunkWriter_stop cw = Inr (r, cw')
     \<and> list_all2 (chunk_timing_ok D O' bps) (emitted cw') (map snd (wav_files cw'))
     \<and> map ci_index (emitted cw') = map int [0..<length (emitted cw')]
     \<and> (case r of None \<Rightarrow> emitted cw' = emitted cw | Some c \<Rightarrow> emitted cw' = emitted cw @ [c])"
proof -
  from inv have D: "chunk_duration cw = D" and Oc: "overlap_duration cw = O'"
    and cbps: "cw_bytes_per_second cw = bps"
    and idx: "chunk_index cw = int (length (emitted cw))"
    and idxs: "map ci_index (emitted cw) = map int [0..<length (emitted cw)]"
    and all: "list_all2 (chunk_timing_ok D O' bps) (emitted cw) (map snd (wav_files cw))"
    by (simp_all add: timing_inv_def)
  let ?r = "AudioBuffer_read (cw_buffer cw) None"
  show ?thesis
  proof (cases "is_running cw \<and> fst ?r \<noteq> []")
    case False
    then have "ChunkWriter_stop cw = Inr (None, cw)
        \<or> ChunkWriter_stop cw = Inr (None, cw\<lparr> is_running := False, cw_buffer := snd ?r \<rparr>)"
      by (auto simp add: ChunkWriter_stop_def Let_def case_prod_beta)
    with idxs all show ?thesis by auto
  next
    case True
    let ?data = "if overlap_data cw \<noteq> [] then overlap_data cw @ fst ?r else fst ?r"
    let ?p = "ChunkFile (output_dir cw) (chunk_index cw)"
    let ?c = "ChunkInfo_init (chunk_index cw) ?p (max 0 (chunk_start_time cw))
              (chunk_start_time cw + real (length ?data) / real_of_int (cw_bytes_per_second cw))
              (start_datetime cw)"
    let ?cw' = "cw\<lparr> is_running := False, cw_buffer := snd ?r,
          wav_files := wav_files cw @ [(?p, ?data)], emitted := emitted cw @ [?c] \<rparr>"
    have stop: "ChunkWriter_stop cw = Inr (Some ?c, ?cw')"
      using True bps cbps by (simp add: ChunkWriter_stop_def Let_def case_prod_beta)
    have "0 \<le> chunk_index cw" using idx by simp
    then have "chunk_timing_ok D O' bps ?c ?data"
      using chunk_timing [of cw ?p ?data "start_datetime cw"] O D Oc cbps by simp
    with all have "list_all2 (chunk_timing_ok D O' bps) (emitted ?cw') (map snd (wav_files ?cw'))"
      by (simp add: list_all2_appendI)
    moreover have "map ci_index (emitted ?cw') = map int [0..<length (emitted ?cw')]"
      using idxs idx by (simp add: ChunkInfo_init_def)
    ultimately show ?thesis using stop by simp
  qed
qed

lemma timing_inv_start:
  "timing_inv (chunk_duration (ChunkWriter_init config mid sr ch cd od))
     (overlap_duration (ChunkWriter_init config mid sr ch cd od))
     (cw_bytes_per_second (ChunkWriter_init config mid sr ch cd od))
     (ChunkWriter_start (ChunkWriter_init config mid sr ch cd od) now)"
  by (simp add: timing_inv_def ChunkWriter_start_def ChunkWriter_init_def Let_def
      AudioBuffer_init_def AudioBuffer_reset_def)

text \<open>
  Claim C8. A writer with a non-zero byte rate and an overlap \<open>O\<close> with
  \<open>0 \<le> O \<le> D\<close> is started, receives any stream of \<open>write\<close> calls and is
  stopped. Every call returns; the chunks emitted, the final one flushed by \<open>stop()\<close>
  included, have the indices 0, 1, 2, ... in order, and the chunk with index \<open>i\<close> has
  start time \<open>max(0, i * D - O)\<close> and end time that start time plus the number of
  bytes written to its file divided by the byte rate. The value \<open>stop()\<close> returns,
  if any, is the last chunk emitted.
\<close>

theorem emitted_chunk_timing:
  assumes "cw_bytes_per_second (ChunkWriter_init config mid sr ch cd od) \<noteq> 0"
    and "0 \<le> overlap_duration (ChunkWriter_init config mid sr ch cd od)"
    and "overlap_duration (ChunkWriter_init config mid sr ch cd od)
           \<le> chunk_duration (ChunkWriter_init config mid sr ch cd od)"
  shows "\<exists>r cw. record_stream (ChunkWriter_init config mid sr ch cd od) now stream = Inr (r, cw)
     \<and> list_all2
          (chunk_timing_ok (chunk_duration (ChunkWriter_init config mid sr ch cd od))
             (overlap_duration (ChunkWriter_init config mid sr ch cd od))
             (cw_bytes_per_second (ChunkWriter_init config mid sr ch cd od)))
          (emitted cw) (map snd (wav_files cw))
     \<and> map ci_index (emitted cw) = map int [0..<length (emitted cw)]
     \<and> (case r of None \<Rightarrow> True | Some c \<Rightarrow> emitted cw \<noteq> [] \<and> last (emitted cw) = c)"
proof -
  let ?cw0 = "ChunkWriter_init config mid sr ch cd od"
  let ?D = "chunk_duration ?cw0" and ?O = "overlap_duration ?cw0"
  let ?bps = "cw_bytes_per_second ?cw0"
  from write_all_timing [OF timing_inv_start assms(2,3,1)]
  obtain cw1 where w: "write_all (ChunkWriter_start ?cw0 now) stream = Inr cw1"
    and inv1: "timing_inv ?D ?O ?bps cw1" by blast
  from stop_timing [OF inv1 assms(2,3,1)]
  obtain r cw where s: "ChunkWriter_stop cw1 = Inr (r, cw)"
    and all: "list_all2 (chunk_timing_ok ?D ?O ?bps) (emitted cw) (map snd (wav_files cw))"
    and idxs: "map ci_index (emitted cw) = map int [0..<length (emitted cw)]"
    and fin: "case r of None \<Rightarrow> emitted cw = emitted cw1
                | Some c \<Rightarrow> emitted cw = emitted cw1 @ [c]"
    by blast
  have "record_stream ?cw0 now stream = Inr (r, cw)"
    using w s by (simp add: record_stream_def)
  moreover have "case r of None \<Rightarrow> True | Some c \<Rightarrow> emitted cw \<noteq> [] \<and> last (emitted cw) = c"
    using fin by (cases r) simp_all
  ultimately show ?thesis using all idxs by blast
qed

theorem emitted_chunk_timing_witness:
  "map_sum id (\<lambda>(r, cw). map (\<lambda>c. (ci_index c, ci_start_time c, ci_end_time c)) (emitted cw))
     (record_stream (ChunkWriter_init default_audio_config 1 None None None None) 0
        [replicate 1920000 0, replicate 32000 0])
     = Inr [(0, 0, 60), (1, 59.5, 61)]
   \<and> map_sum id (\<lambda>(r, cw). map (\<lambda>(p, data). length data) (wav_files cw))
     (record_stream (ChunkWriter_init default_audio_config 1 None None None None) 0
        [replicate 1920000 0, replicate 32000 0])
     = Inr [1920000, 48000]"
  using emitted_chunk_timing [of default_audio_config 1 None None None None 0
      "[replicate 1920000 0, replicate 32000 0]"]
  by (simp add: chunk_eval record_stream_def ChunkWriter_stop_def)

section \<open>Properties of the recording engine\<close>

lemma stop_releases_writer:
  assumes "re_state eng = RECORDING"
  shows "re_state (fst (snd (RecordingEngine_stop eng w))) = STOPPED"
    and "re_chunk_writer (fst (snd (RecordingEngine_stop eng w))) = None"
  using assms
  by (simp_all add: RecordingEngine_stop_def set_state_def cleanup_def case_prod_beta Let_def)

text \<open>
  Claim C3, amended. While the state is \<open>RECORDING\<close> (and the session start time is
  set), the elapsed-time query returns wall-clock now minus the session start time. In
  another state it returns the segmenter's cumulative received duration only while the
  engine still holds a segmenter (as in \<open>STARTING\<close> and \<open>STOPPING\<close>). When no
  segmenter is held it returns 0: so it does in \<open>IDLE\<close> before any recording, and in
  \<open>STOPPED\<close> after \<open>stop()\<close> has completed, because \<open>stop()\<close> releases the
  segmenter before it returns, whatever happened while stopping.
\<close>

theorem elapsed_seconds_by_state:
  "(re_state eng = RECORDING \<and> re_start_time eng = Some t0
      \<longrightarrow> get_elapsed_seconds eng now = Inr (now - t0))
   \<and> (re_state eng \<noteq> RECORDING \<and> re_chunk_writer eng = Some cw
      \<longrightarrow> get_elapsed_seconds eng now = get_total_duration cw)
   \<and> (re_state eng \<noteq> RECORDING \<and> re_chunk_writer eng = None
      \<longrightarrow> get_elapsed_seconds eng now = Inr 0)
   \<and> (re_state eng = RECORDING
      \<longrightarrow> re_state (fst (snd (RecordingEngine_stop eng w))) = STOPPED
        \<and> get_elapsed_seconds (fst (snd (RecordingEngine_stop eng w))) now = Inr 0)
   \<and> get_elapsed_seconds (RecordingEngine_init config) now = Inr 0"
proof -
  have a: "re_state eng = RECORDING \<and> re_start_time eng = Some t0
      \<longrightarrow> get_elapsed_seconds eng now = Inr (now - t0)"
    by (simp add: get_elapsed_seconds_def)
  have b: "re_state eng \<noteq> RECORDING \<and> re_chunk_writer eng = Some cw
      \<longrightarrow> get_elapsed_seconds eng now = get_total_duration cw"
    by (simp add: get_elapsed_seconds_def)
  have c: "re_state eng \<noteq> RECORDING \<and> re_chunk_writer eng = None
      \<longrightarrow> get_elapsed_seconds eng now = Inr 0"
    by (simp add: get_elapsed_seconds_def)
  have d: "re_state eng = RECORDING
      \<longrightarrow> re_state (fst (snd (RecordingEngine_stop eng w))) = STOPPED
        \<and> get_elapsed_seconds (fst (snd (RecordingEngine_stop eng w))) now = Inr 0"
    using stop_releases_writer [of eng w] by (simp add: get_elapsed_seconds_def)
  have e: "get_elapsed_seconds (RecordingEngine_init config) now = Inr 0"
    by (simp add: get_elapsed_seconds_def RecordingEngine_init_def)
  from a b c d e show ?thesis by blast
qed

lemmas engine_eval =
  RecordingEngine_start_def RecordingEngine_init_def set_state_def cleanup_def
  handle_audio_data_def deliver_chunks_def handle_chunk_ready_def truthy_id_def
  RecordingEngine_stop_def stop_body_def get_elapsed_seconds_def get_total_duration_def
  total_received_seconds_def start_recording_def stop_recording_def
  MeetingRepository_update_def get_output_dir_def ChunkWriter_stop_def
  AudioChunkRepository_create_def case_prod_beta

text \<open>
  Claim C3, as stated, fails in \<open>STOPPED\<close>. A recording of meeting 1 has received one
  second of audio: at time 5 the query returns 5 while recording, and the segmenter's
  cumulative received duration is 1. After \<open>stop()\<close> the state is \<open>STOPPED\<close> and
  the query returns 0, not 1.
\<close>

theorem elapsed_after_stop_counterexample:
  "\<not> isl recorded_second
   \<and> re_state (fst (projr recorded_second)) = RECORDING
   \<and> get_elapsed_seconds (fst (projr recorded_second)) 5 = Inr 5
   \<and> map_option get_total_duration (re_chunk_writer (fst (projr recorded_second)))
       = Some (Inr 1)
   \<and> fst (RecordingEngine_stop (fst (projr recorded_second)) (snd (projr recorded_second))) = 1
   \<and> re_state (fst (snd (RecordingEngine_stop (fst (projr recorded_second))
                            (snd (projr recorded_second))))) = STOPPED
   \<and> get_elapsed_seconds (fst (snd (RecordingEngine_stop (fst (projr recorded_second))
                            (snd (projr recorded_second))))) 5 = Inr 0
   \<and> get_elapsed_seconds (fst (snd (RecordingEngine_stop (fst (projr recorded_second))
                            (snd (projr recorded_second))))) 5 \<noteq> Inr 1"
  by (simp add: recorded_second_def engine_eval chunk_eval example_world_def)

theorem elapsed_seconds_by_state_witness:
  "\<not> isl recorded_second
   \<and> re_state (fst (projr recorded_second)) = RECORDING
   \<and> re_start_time (fst (projr recorded_second)) = Some 0
   \<and> get_elapsed_seconds (fst (projr recorded_second)) 5 = Inr 5
   \<and> get_elapsed_seconds (set_state (fst (projr recorded_second)) STOPPING) 5 = Inr 1
   \<and> re_state (fst (snd (RecordingEngine_stop (fst (projr recorded_second))
                            (snd (projr recorded_second))))) = STOPPED
   \<and> re_chunk_writer (fst (snd (RecordingEngine_stop (fst (projr recorded_second))
                            (snd (projr recorded_second))))) = None
   \<and> get_elapsed_seconds (fst (snd (RecordingEngine_stop (fst (projr recorded_second))
                            (snd (projr recorded_second))))) 5 = Inr 0"
  using elapsed_seconds_by_state [where eng = "fst (projr recorded_second)" and ?t0.0 = 0
      and now = 5 and w = "snd (projr recorded_second)"]
    elapsed_seconds_by_state [where
      eng = "set_state (fst (projr recorded_second)) STOPPING" and now = 5
      and cw = "the (re_chunk_writer (fst (projr recorded_second)))"]
    elapsed_seconds_by_state [where
      eng = "fst (snd (RecordingEngine_stop (fst (projr recorded_second))
                            (snd (projr recorded_second))))" and now = 5]
  by (simp add: recorded_second_def engine_eval chunk_eval example_world_def)

section \<open>Properties of the processing pipeline\<close>

text \<open>
  Claim C6. If \<open>process(meeting_id)\<close> is called on a pipeline whose state is
  \<open>TRANSCRIBING\<close>, \<open>MERGING\<close> or \<open>GENERATING\<close>, the call returns \<open>False\<close>
  and changes nothing: the pipeline (its state, the current meeting identifier of the
  run in progress, its callback traces) and the world (the persisted meeting status
  included) are as before, and no provider is called.
\<close>

theorem process_rejected_while_running:
  assumes "p_state p = P_TRANSCRIBING \<or> p_state p = P_MERGING \<or> p_state p = P_GENERATING"
  shows "process env p w mid audio_urls = (False, p, w)
       \<and> p_state (fst (snd (process env p w mid audio_urls))) = p_state p
       \<and> current_meeting_id (fst (snd (process env p w mid audio_urls))) = current_meeting_id p
       \<and> meetings (snd (snd (process env p w mid audio_urls))) = meetings w"
proof -
  have "p_state p \<notin> {P_IDLE, P_DONE, P_FAILED}" using assms by auto
  then have "process env p w mid audio_urls = (False, p, w)"
    by (simp add: process_def)
  then show ?thesis by simp
qed

theorem process_rejected_while_running_witness:
  "process failing_providers
     (MeetingPipeline_init\<lparr> p_state := P_TRANSCRIBING, current_meeting_id := Some 1 \<rparr>)
     (update_status example_world 1 ''processing'') 1 None
   = (False, MeetingPipeline_init\<lparr> p_state := P_TRANSCRIBING, current_meeting_id := Some 1 \<rparr>,
      update_status example_world 1 ''processing'')
   \<and> map_option m_status (meetings (snd (snd (process failing_providers
     (MeetingPipeline_init\<lparr> p_state := P_TRANSCRIBING, current_meeting_id := Some 1 \<rparr>)
     (update_status example_world 1 ''processing'') 1 None))) 1) = Some ''processing''"
  using process_rejected_while_running [of
      "MeetingPipeline_init\<lparr> p_state := P_TRANSCRIBING, current_meeting_id := Some 1 \<rparr>"
      failing_providers "update_status example_world 1 ''processing''" 1 None]
  by (simp add: update_status_def MeetingRepository_update_def example_world_def)




text \<open>
  A run of \<open>process\<close> itself does not get as far as the generation stage: for a
  meeting that exists, the log statement after the existence test reads a column of
  the detached instance and raises, and the run ends in \<open>FAILED\<close> with the meeting
  marked as failed; for a meeting that does not exist it raises \<open>ValueError\<close>.
\<close>

lemma process_fails_on_detached_meeting:
  assumes "p_state p = P_IDLE \<or> p_state p = P_DONE \<or> p_state p = P_FAILED"
    and "meetings w mid = Some m"
  shows "process env p w mid audio_urls
     = (False,
        (report_error (p_set_state (p\<lparr> current_meeting_id := Some mid \<rparr>) P_FAILED)
           DetachedInstanceError)\<lparr> current_meeting_id := None \<rparr>,
        update_status w mid ''failed'')"
proof -
  have "p_state p \<in> {P_IDLE, P_DONE, P_FAILED}" using assms(1) by auto
  then show ?thesis
    using assms(2)
    by (simp add: process_def process_body_def MeetingRepository_get_by_id_def
        read_column_def Let_def)
qed

end
